theory Spec2Isabelle
  imports Main
begin

section \<open>Multilayer Elman RNN forward pass (rnn\_by\_hand.ipynb)\<close>

text \<open>
  The notebook defines \<^verbatim>\<open>compute_new_hidden_state\<close> and the class \<^verbatim>\<open>MyRNN\<close>
  (\<^verbatim>\<open>__init__\<close>, \<^verbatim>\<open>forward\<close>) on top of torch tensors. The tensor library is
  not part of the repository; the operations the two functions use are modelled below
  on a tensor that is a shape and a row-major list of elements, with every exception
  the library raises as an error value.

  The scalar arithmetic of the elements (64-bit floating point in the source) is a
  parameter of the model: a record of the operations. Every theorem stated for an
  arbitrary record holds for whatever addition, multiplication and activation
  functions the hardware computes; rounding is therefore outside the model. The
  summation order inside a matrix product is fixed to left-to-right.
\<close>

subsection \<open>Errors and the error monad\<close>

datatype error =
    IndexError        \<comment> \<open>an index outside a dimension, or outside a shape tuple\<close>
  | ShapeMismatch     \<comment> \<open>the RuntimeError of a size check (matmul, broadcast, assignment)\<close>
  | AssertionError    \<comment> \<open>the \<^verbatim>\<open>assert\<close> of \<^verbatim>\<open>forward\<close>\<close>
  | AttributeError    \<comment> \<open>\<^verbatim>\<open>.T\<close> on a value that is not a tensor\<close>
  | TypeError         \<comment> \<open>\<^verbatim>\<open>+\<close> between a tensor and \<^verbatim>\<open>None\<close>\<close>
  | Unmodelled        \<comment> \<open>an operand rank the model of the tensor library does not cover\<close>

definition ebind :: "error + 'a \<Rightarrow> ('a \<Rightarrow> error + 'b) \<Rightarrow> error + 'b" where
  "ebind m f = (case m of Inl e \<Rightarrow> Inl e | Inr v \<Rightarrow> f v)"

subsection \<open>Scalars\<close>

record 'a scalar_ops =
  s_add :: "'a \<Rightarrow> 'a \<Rightarrow> 'a"
  s_mul :: "'a \<Rightarrow> 'a \<Rightarrow> 'a"
  s_zero :: "'a"
  s_nan :: "'a"
  s_isnan :: "'a \<Rightarrow> bool"
  s_relu :: "'a \<Rightarrow> 'a"
  s_tanh :: "'a \<Rightarrow> 'a"

subsection \<open>Tensors\<close>

record 'a tensor =
  shape :: "nat list"
  data :: "'a list"

definition wf_tensor :: "'a tensor \<Rightarrow> bool" where
  "wf_tensor t = (length (data t) = prod_list (shape t))"

definition chunk :: "nat \<Rightarrow> nat \<Rightarrow> 'a list \<Rightarrow> 'a list" where
  \<comment> \<open>the \<open>k\<close>-th block of \<open>m\<close> consecutive elements\<close>
  "chunk m k xs = take m (drop (k * m) xs)"

definition tabulate2 :: "nat \<Rightarrow> nat \<Rightarrow> (nat \<Rightarrow> nat \<Rightarrow> 'a) \<Rightarrow> 'a list" where
  \<comment> \<open>the elements \<open>f i j\<close> of an \<open>n \<times> m\<close> matrix, row after row\<close>
  "tabulate2 n m f = concat (map (\<lambda>i. map (\<lambda>j. f i j) [0..<m]) [0..<n])"

definition torch_full :: "nat list \<Rightarrow> 'a \<Rightarrow> 'a tensor" where
  "torch_full s v = \<lparr>shape = s, data = replicate (prod_list s) v\<rparr>"

definition torch_zeros :: "'a scalar_ops \<Rightarrow> nat list \<Rightarrow> 'a tensor" where
  "torch_zeros ar s = torch_full s (s_zero ar)"

definition fill_all :: "'a tensor \<Rightarrow> 'a \<Rightarrow> 'a tensor" where
  \<comment> \<open>\<^verbatim>\<open>t[:] = v\<close>\<close>
  "fill_all t v = t\<lparr>data := replicate (length (data t)) v\<rparr>"

definition shape_at :: "'a tensor \<Rightarrow> nat \<Rightarrow> error + nat" where
  \<comment> \<open>\<^verbatim>\<open>t.shape[k]\<close>\<close>
  "shape_at t k = (if k < length (shape t) then Inr (shape t ! k) else Inl IndexError)"

definition norm_index :: "nat \<Rightarrow> int \<Rightarrow> error + nat" where
  \<comment> \<open>an index into a dimension of size \<open>n\<close>; negative indices count from the end\<close>
  "norm_index n i =
     (if 0 \<le> i \<and> i < int n then Inr (nat i)
      else if - int n \<le> i \<and> i < 0 then Inr (nat (int n + i))
      else Inl IndexError)"

definition select0 :: "'a tensor \<Rightarrow> int \<Rightarrow> error + 'a tensor" where
  \<comment> \<open>\<^verbatim>\<open>t[i]\<close>\<close>
  "select0 t i =
     (case shape t of
        [] \<Rightarrow> Inl IndexError
      | n # rest \<Rightarrow>
          ebind (norm_index n i) (\<lambda>k.
          Inr \<lparr>shape = rest, data = chunk (prod_list rest) k (data t)\<rparr>))"

definition select1 :: "'a tensor \<Rightarrow> int \<Rightarrow> error + 'a tensor" where
  \<comment> \<open>\<^verbatim>\<open>t[:, j]\<close>\<close>
  "select1 t j =
     (case shape t of
        n0 # n1 # rest \<Rightarrow>
          ebind (norm_index n1 j) (\<lambda>k.
          Inr \<lparr>shape = n0 # rest,
               data = concat (map (\<lambda>a. chunk (prod_list rest) (a * n1 + k) (data t)) [0..<n0])\<rparr>)
      | _ \<Rightarrow> Inl IndexError)"

definition trow :: "'a tensor \<Rightarrow> nat \<Rightarrow> nat \<Rightarrow> 'a list" where
  \<comment> \<open>row \<open>i\<close> of a matrix with \<open>k\<close> columns\<close>
  "trow t k i = map (\<lambda>r. data t ! (i * k + r)) [0..<k]"

definition tcol :: "'a tensor \<Rightarrow> nat \<Rightarrow> nat \<Rightarrow> nat \<Rightarrow> 'a list" where
  \<comment> \<open>column \<open>j\<close> of a matrix with \<open>k\<close> rows and \<open>m\<close> columns\<close>
  "tcol t k m j = map (\<lambda>r. data t ! (r * m + j)) [0..<k]"

definition dot :: "'a scalar_ops \<Rightarrow> 'a list \<Rightarrow> 'a list \<Rightarrow> 'a" where
  "dot ar xs ys = foldl (s_add ar) (s_zero ar) (map2 (s_mul ar) xs ys)"

definition transpose2 :: "'a tensor \<Rightarrow> error + 'a tensor" where
  \<comment> \<open>\<^verbatim>\<open>t.T\<close> of a matrix\<close>
  "transpose2 t =
     (if length (shape t) = 2 then
        (let n = shape t ! 0; m = shape t ! 1
         in Inr \<lparr>shape = [m, n], data = tabulate2 m n (\<lambda>j i. data t ! (i * m + j))\<rparr>)
      else Inl Unmodelled)"

definition matmul :: "'a scalar_ops \<Rightarrow> 'a tensor \<Rightarrow> 'a tensor \<Rightarrow> error + 'a tensor" where
  \<comment> \<open>\<^verbatim>\<open>a @ b\<close> of two matrices\<close>
  "matmul ar a b =
     (if length (shape a) = 2 \<and> length (shape b) = 2 then
        (let n = shape a ! 0; k = shape a ! 1; k' = shape b ! 0; m = shape b ! 1
         in if k = k' then
              Inr \<lparr>shape = [n, m],
                   data = tabulate2 n m (\<lambda>i j. dot ar (trow a k i) (tcol b k m j))\<rparr>
            else Inl ShapeMismatch)
      else Inl Unmodelled)"

text \<open>
  Broadcasting. A tensor of rank at most two is read as a matrix (a vector of length
  \<open>h\<close> as one row, a 0-dimensional tensor as one element); two dimensions are
  compatible when they are equal or one of them is 1, and a dimension of size 1 is
  read at index 0 throughout.
\<close>

definition view2 :: "nat list \<Rightarrow> (nat \<times> nat) option" where
  "view2 s = (case s of [] \<Rightarrow> Some (1, 1) | [h] \<Rightarrow> Some (1, h) | [b, h] \<Rightarrow> Some (b, h)
              | _ \<Rightarrow> None)"

definition bdim :: "nat \<Rightarrow> nat \<Rightarrow> nat option" where
  "bdim a b = (if a = b then Some a else if a = 1 then Some b else if b = 1 then Some a
               else None)"

definition bidx :: "nat \<Rightarrow> nat \<Rightarrow> nat" where
  "bidx n i = (if n = 1 then 0 else i)"

definition bget :: "'a tensor \<Rightarrow> nat \<times> nat \<Rightarrow> nat \<Rightarrow> nat \<Rightarrow> 'a" where
  \<comment> \<open>element \<open>(i, j)\<close> of a tensor viewed as a \<open>b \<times> h\<close> matrix and broadcast\<close>
  "bget t v i j = (case v of (b, h) \<Rightarrow> data t ! (bidx b i * h + bidx h j))"

definition tadd :: "'a scalar_ops \<Rightarrow> 'a tensor \<Rightarrow> 'a tensor \<Rightarrow> error + 'a tensor" where
  \<comment> \<open>\<^verbatim>\<open>x + y\<close> of two tensors\<close>
  "tadd ar x y =
     (case (view2 (shape x), view2 (shape y)) of
        (Some vx, Some vy) \<Rightarrow>
          (case (bdim (fst vx) (fst vy), bdim (snd vx) (snd vy)) of
             (Some b, Some h) \<Rightarrow>
               Inr \<lparr>shape = drop (2 - max (length (shape x)) (length (shape y))) [b, h],
                    data = tabulate2 b h (\<lambda>i j. s_add ar (bget x vx i j) (bget y vy i j))\<rparr>
           | _ \<Rightarrow> Inl ShapeMismatch)
      | _ \<Rightarrow> Inl Unmodelled)"

definition tmap :: "('a \<Rightarrow> 'a) \<Rightarrow> 'a tensor \<Rightarrow> 'a tensor" where
  "tmap f t = t\<lparr>data := map f (data t)\<rparr>"

definition has_nan :: "'a scalar_ops \<Rightarrow> 'a tensor \<Rightarrow> bool" where
  \<comment> \<open>\<^verbatim>\<open>t.isnan().any()\<close>\<close>
  "has_nan ar t = list_ex (s_isnan ar) (data t)"

definition expand2 :: "'a tensor \<Rightarrow> nat \<Rightarrow> nat \<Rightarrow> error + 'a list" where
  \<comment> \<open>the elements of \<open>v\<close> expanded to a \<open>b \<times> h\<close> slot, as an assignment does\<close>
  "expand2 v b h =
     (case view2 (shape v) of
        Some vv \<Rightarrow>
          if (fst vv = b \<or> fst vv = 1) \<and> (snd vv = h \<or> snd vv = 1) then
            Inr (tabulate2 b h (\<lambda>i j. bget v vv i j))
          else Inl ShapeMismatch
      | None \<Rightarrow> Inl Unmodelled)"

definition setitem01 :: "'a tensor \<Rightarrow> int \<Rightarrow> int \<Rightarrow> 'a tensor \<Rightarrow> error + 'a tensor" where
  \<comment> \<open>\<^verbatim>\<open>t[i, j] = v\<close> on a 4-dimensional tensor\<close>
  "setitem01 t i j v =
     (case shape t of
        [n0, n1, b, h] \<Rightarrow>
          ebind (norm_index n0 i) (\<lambda>ki.
          ebind (norm_index n1 j) (\<lambda>kj.
          ebind (expand2 v b h) (\<lambda>vd.
          Inr (t\<lparr>data := take ((ki * n1 + kj) * (b * h)) (data t) @ vd
                          @ drop ((ki * n1 + kj) * (b * h) + b * h) (data t)\<rparr>))))
      | _ \<Rightarrow> Inl Unmodelled)"

subsection \<open>The step function\<close>

text \<open>
  A value passed for a weight or a bias: what \<^verbatim>\<open>dict.get\<close> returns. \<open>PyNone\<close> is the
  default of \<^verbatim>\<open>params.get(key)\<close>, \<open>PyInt0\<close> the integer 0 of
  \<^verbatim>\<open>params.get(key, 0)\<close>.
\<close>

datatype 'a arg = PyNone | PyInt0 | PyTensor "'a tensor"

datatype activation = TorchRelu | TorchTanh

definition apply_activation :: "'a scalar_ops \<Rightarrow> activation \<Rightarrow> 'a tensor \<Rightarrow> 'a tensor" where
  "apply_activation ar f t =
     (case f of TorchRelu \<Rightarrow> tmap (s_relu ar) t | TorchTanh \<Rightarrow> tmap (s_tanh ar) t)"

definition arg_T :: "'a arg \<Rightarrow> error + 'a tensor" where
  \<comment> \<open>\<^verbatim>\<open>w.T\<close>\<close>
  "arg_T w = (case w of PyTensor t \<Rightarrow> transpose2 t | _ \<Rightarrow> Inl AttributeError)"

definition add_arg :: "'a scalar_ops \<Rightarrow> 'a tensor \<Rightarrow> 'a arg \<Rightarrow> error + 'a tensor" where
  \<comment> \<open>\<^verbatim>\<open>x + b\<close>\<close>
  "add_arg ar x b =
     (case b of
        PyNone \<Rightarrow> Inl TypeError
      | PyInt0 \<Rightarrow> Inr (tmap (\<lambda>v. s_add ar v (s_zero ar)) x)
      | PyTensor y \<Rightarrow> tadd ar x y)"

definition compute_new_hidden_state ::
  "'a scalar_ops \<Rightarrow> 'a tensor \<Rightarrow> 'a tensor \<Rightarrow> 'a arg \<Rightarrow> 'a arg \<Rightarrow> 'a arg \<Rightarrow> 'a arg
     \<Rightarrow> activation \<Rightarrow> error + 'a tensor" where
  "compute_new_hidden_state ar previous_hidden_state inputs weight_hh bias_hh weight_ih bias_ih
       activation_func =
     ebind (arg_T weight_hh) (\<lambda>whhT.
     ebind (matmul ar previous_hidden_state whhT) (\<lambda>a.
     ebind (add_arg ar a bias_hh) (\<lambda>b.
     ebind (arg_T weight_ih) (\<lambda>wihT.
     ebind (matmul ar inputs wihT) (\<lambda>c.
     ebind (tadd ar b c) (\<lambda>d.
     ebind (add_arg ar d bias_ih) (\<lambda>e.
     Inr (apply_activation ar activation_func e))))))))"

subsection \<open>The parameter store: \<^verbatim>\<open>MyRNN.__init__\<close>\<close>

text \<open>
  The wrapped recurrent model, as far as \<^verbatim>\<open>__init__\<close> reads it: its layer count,
  its hidden size, its configured nonlinearity and its named parameters in the order
  the model lists them.
\<close>

record 'a rnn =
  rnn_num_layers :: nat
  rnn_hidden_size :: nat
  rnn_nonlinearity :: string
  rnn_named_parameters :: "(string \<times> 'a tensor) list"

record 'a MyRNN =
  num_layers :: nat
  hidden_size :: nat
  params :: "string \<Rightarrow> 'a tensor option"
  activation_func :: activation

definition py_dict :: "('k \<times> 'v) list \<Rightarrow> 'k \<Rightarrow> 'v option" where
  \<comment> \<open>\<^verbatim>\<open>dict(pairs)\<close>: a later pair replaces an earlier one with the same key\<close>
  "py_dict ps = map_of (rev ps)"

definition MyRNN_init :: "'a rnn \<Rightarrow> 'a MyRNN" where
  "MyRNN_init rnn =
     \<lparr>num_layers = rnn_num_layers rnn,
      hidden_size = rnn_hidden_size rnn,
      params = py_dict (rnn_named_parameters rnn),
      activation_func = (if rnn_nonlinearity rnn = ''relu'' then TorchRelu else TorchTanh)\<rparr>"

fun str_of_nat :: "nat \<Rightarrow> string" where
  \<comment> \<open>the decimal digits an f-string writes for a non-negative integer\<close>
  "str_of_nat n =
     (if n < 10 then [''0123456789'' ! n]
      else str_of_nat (n div 10) @ [''0123456789'' ! (n mod 10)])"

definition param_key :: "string \<Rightarrow> nat \<Rightarrow> string" where
  \<comment> \<open>\<^verbatim>\<open>f"weight_hh_l{layer}"\<close> and its three siblings\<close>
  "param_key prefix layer = prefix @ str_of_nat layer"

definition get_weight :: "'a MyRNN \<Rightarrow> string \<Rightarrow> nat \<Rightarrow> 'a arg" where
  \<comment> \<open>\<^verbatim>\<open>self.params.get(key)\<close>\<close>
  "get_weight self prefix layer =
     (case params self (param_key prefix layer) of None \<Rightarrow> PyNone | Some t \<Rightarrow> PyTensor t)"

definition get_bias :: "'a MyRNN \<Rightarrow> string \<Rightarrow> nat \<Rightarrow> 'a arg" where
  \<comment> \<open>\<^verbatim>\<open>self.params.get(key, 0)\<close>\<close>
  "get_bias self prefix layer =
     (case params self (param_key prefix layer) of None \<Rightarrow> PyInt0 | Some t \<Rightarrow> PyTensor t)"

subsection \<open>The sequence driver: \<^verbatim>\<open>MyRNN.forward\<close>\<close>

text \<open>
  The buffer \<^verbatim>\<open>hidden_states\<close> is the only mutable object of \<^verbatim>\<open>forward\<close>. The loop
  state carries it together with a log of the cells assigned so far, in order; the
  log is not a variable of the source, it records the assignments the source makes.
\<close>

record 'a loop_state =
  hidden_states :: "'a tensor"
  written :: "(nat \<times> nat) list"

primrec for_each :: "nat list \<Rightarrow> (nat \<Rightarrow> 's \<Rightarrow> error + 's) \<Rightarrow> 's \<Rightarrow> error + 's" where
  \<comment> \<open>a \<^verbatim>\<open>for\<close> loop that an exception leaves\<close>
  "for_each [] f s = Inr s"
| "for_each (x # xs) f s = ebind (f x s) (for_each xs f)"

definition layer_step ::
  "'a scalar_ops \<Rightarrow> 'a MyRNN \<Rightarrow> nat \<Rightarrow> 'a tensor \<Rightarrow> 'a tensor \<Rightarrow> error + 'a tensor" where
  \<comment> \<open>the call of \<^verbatim>\<open>compute_new_hidden_state\<close> in the loop body, for one layer\<close>
  "layer_step ar self layer previous_hidden_state inputs =
     compute_new_hidden_state ar previous_hidden_state inputs
       (get_weight self ''weight_hh_l'' layer)
       (get_bias self ''bias_hh_l'' layer)
       (get_weight self ''weight_ih_l'' layer)
       (get_bias self ''bias_ih_l'' layer)
       (activation_func self)"

definition loop_body ::
  "'a scalar_ops \<Rightarrow> 'a MyRNN \<Rightarrow> 'a tensor \<Rightarrow> 'a tensor \<Rightarrow> nat \<Rightarrow> nat \<Rightarrow> 'a loop_state
     \<Rightarrow> error + 'a loop_state" where
  "loop_body ar self X hidden_0 idx layer st =
     ebind (if idx = 0 then Inr hidden_0 else select0 (hidden_states st) (int idx - 1))
       (\<lambda>previous_hidden_states.
     ebind (if layer = 0 then select0 X (int idx)
            else ebind (select0 (hidden_states st) (int idx))
                   (\<lambda>r. select0 r (int layer - 1)))
       (\<lambda>inputs.
     ebind (select0 previous_hidden_states (int layer)) (\<lambda>previous_hidden_state.
     ebind (layer_step ar self layer previous_hidden_state inputs) (\<lambda>new_hidden.
     ebind (setitem01 (hidden_states st) (int idx) (int layer) new_hidden) (\<lambda>hs.
     Inr \<lparr>hidden_states = hs, written = written st @ [(idx, layer)]\<rparr>)))))"

definition run_loops ::
  "'a scalar_ops \<Rightarrow> 'a MyRNN \<Rightarrow> 'a tensor \<Rightarrow> 'a tensor \<Rightarrow> nat \<Rightarrow> 'a loop_state
     \<Rightarrow> error + 'a loop_state" where
  "run_loops ar self X hidden_0 seq_length st =
     for_each [0..<seq_length]
       (\<lambda>idx. for_each [0..<num_layers self] (\<lambda>layer. loop_body ar self X hidden_0 idx layer))
       st"

definition default_hidden :: "'a scalar_ops \<Rightarrow> 'a MyRNN \<Rightarrow> nat \<Rightarrow> 'a tensor option \<Rightarrow> 'a tensor" where
  \<comment> \<open>\<^verbatim>\<open>if hidden_0 is None: hidden_0 = torch.zeros(...)\<close>\<close>
  "default_hidden ar self batch_size hidden_0 =
     (case hidden_0 of
        None \<Rightarrow> torch_zeros ar [num_layers self, batch_size, hidden_size self]
      | Some h \<Rightarrow> h)"

definition initial_state :: "'a scalar_ops \<Rightarrow> 'a MyRNN \<Rightarrow> nat \<Rightarrow> nat \<Rightarrow> 'a loop_state" where
  \<comment> \<open>the buffer after \<^verbatim>\<open>hidden_states[:] = torch.nan\<close>, nothing assigned yet\<close>
  "initial_state ar self seq_length batch_size =
     \<lparr>hidden_states =
        fill_all (torch_zeros ar [seq_length, num_layers self, batch_size, hidden_size self])
          (s_nan ar),
      written = []\<rparr>"

definition forward ::
  "'a scalar_ops \<Rightarrow> 'a MyRNN \<Rightarrow> 'a tensor \<Rightarrow> 'a tensor option
     \<Rightarrow> error + ('a tensor \<times> 'a tensor)" where
  "forward ar self X hidden_0 =
     ebind (shape_at X 0) (\<lambda>seq_length.
     ebind (shape_at X 1) (\<lambda>batch_size.
     ebind (run_loops ar self X (default_hidden ar self batch_size hidden_0) seq_length
              (initial_state ar self seq_length batch_size)) (\<lambda>st.
     if has_nan ar (hidden_states st) then Inl AssertionError
     else ebind (select1 (hidden_states st) (- 1)) (\<lambda>last_layer_outputs.
          ebind (select0 (hidden_states st) (- 1)) (\<lambda>final_hidden.
          Inr (last_layer_outputs, final_hidden))))))"

subsection \<open>A model of float64 on small integers and special values\<close>

text \<open>
  For concrete runs the elements are the float64 values that are integers of magnitude
  at most \<open>2\<^sup>5\<^sup>3\<close>, the two infinities and NaN. In this range every integer is a
  float64 value, and an addition or multiplication whose exact result is again such
  an integer returns it without rounding, in any order of evaluation. The infinities
  and NaN combine as IEEE 754 prescribes: \<open>\<infinity> - \<infinity>\<close> and \<open>0 \<cdot> \<infinity>\<close> are NaN, and NaN
  propagates through every operation.

  The model does not follow rounding or overflow: the result of an operation on
  finite values that leaves the range (or the hyperbolic tangent of a non-zero
  integer) is \<open>Inexact\<close>, which says nothing about the float64 value; it absorbs every
  later operation except one with NaN, whose result is NaN whatever the other operand
  is. No run evaluated in this theory produces \<open>Inexact\<close>.
\<close>

datatype fl = Fin int | PInf | NInf | NaN | Inexact

definition fl_small :: "int \<Rightarrow> bool" where
  "fl_small z = (\<bar>z\<bar> \<le> 9007199254740992)"

fun fl_add :: "fl \<Rightarrow> fl \<Rightarrow> fl" where
  "fl_add NaN _ = NaN"
| "fl_add _ NaN = NaN"
| "fl_add Inexact _ = Inexact"
| "fl_add _ Inexact = Inexact"
| "fl_add (Fin x) (Fin y) =
     (if fl_small x \<and> fl_small y \<and> fl_small (x + y) then Fin (x + y) else Inexact)"
| "fl_add PInf NInf = NaN"
| "fl_add NInf PInf = NaN"
| "fl_add PInf _ = PInf"
| "fl_add _ PInf = PInf"
| "fl_add NInf _ = NInf"
| "fl_add _ NInf = NInf"

definition fl_inf_of_sign :: "bool \<Rightarrow> fl" where
  "fl_inf_of_sign positive = (if positive then PInf else NInf)"

fun fl_mul :: "fl \<Rightarrow> fl \<Rightarrow> fl" where
  "fl_mul NaN _ = NaN"
| "fl_mul _ NaN = NaN"
| "fl_mul Inexact _ = Inexact"
| "fl_mul _ Inexact = Inexact"
| "fl_mul (Fin x) (Fin y) =
     (if fl_small x \<and> fl_small y \<and> fl_small (x * y) then Fin (x * y) else Inexact)"
| "fl_mul PInf PInf = PInf"
| "fl_mul NInf NInf = PInf"
| "fl_mul PInf NInf = NInf"
| "fl_mul NInf PInf = NInf"
| "fl_mul PInf (Fin y) = (if y = 0 then NaN else fl_inf_of_sign (0 < y))"
| "fl_mul NInf (Fin y) = (if y = 0 then NaN else fl_inf_of_sign (y < 0))"
| "fl_mul (Fin x) PInf = (if x = 0 then NaN else fl_inf_of_sign (0 < x))"
| "fl_mul (Fin x) NInf = (if x = 0 then NaN else fl_inf_of_sign (x < 0))"

fun fl_relu :: "fl \<Rightarrow> fl" where
  "fl_relu NaN = NaN"
| "fl_relu Inexact = Inexact"
| "fl_relu PInf = PInf"
| "fl_relu NInf = Fin 0"
| "fl_relu (Fin x) = (if fl_small x then Fin (max 0 x) else Inexact)"

fun fl_tanh :: "fl \<Rightarrow> fl" where
  "fl_tanh NaN = NaN"
| "fl_tanh Inexact = Inexact"
| "fl_tanh PInf = Fin 1"
| "fl_tanh NInf = Fin (- 1)"
| "fl_tanh (Fin x) = (if x = 0 then Fin 0 else Inexact)"

definition fl_ops :: "fl scalar_ops" where
  "fl_ops = \<lparr>s_add = fl_add, s_mul = fl_mul, s_zero = Fin 0, s_nan = NaN,
             s_isnan = (\<lambda>x. x = NaN), s_relu = fl_relu, s_tanh = fl_tanh\<rparr>"

subsection \<open>The specification's formulas\<close>

text \<open>
  The step function as the specification writes it, element by element:
  \<open>new_hidden[b, h] = activation((prev_hidden \<cdot> weight_hh\<^sup>T)[b, h] + bias_hh[h]
  + (inputs \<cdot> weight_ih\<^sup>T)[b, h] + bias_ih[h])\<close>, where element \<open>(b, h)\<close> of
  \<open>A \<cdot> W\<^sup>T\<close> is the product of row \<open>b\<close> of \<open>A\<close> with row \<open>h\<close> of \<open>W\<close>, and an
  absent bias is the additive zero.
\<close>

definition act_fn :: "'a scalar_ops \<Rightarrow> activation \<Rightarrow> 'a \<Rightarrow> 'a" where
  "act_fn ar f = (case f of TorchRelu \<Rightarrow> s_relu ar | TorchTanh \<Rightarrow> s_tanh ar)"

definition bias_at :: "'a scalar_ops \<Rightarrow> 'a arg \<Rightarrow> nat \<Rightarrow> 'a" where
  "bias_at ar b h = (case b of PyTensor t \<Rightarrow> data t ! h | _ \<Rightarrow> s_zero ar)"

definition bias_conformant :: "'a arg \<Rightarrow> nat \<Rightarrow> bool" where
  \<comment> \<open>a bias of shape \<open>[H]\<close>, or the integer 0 that stands for an absent one\<close>
  "bias_conformant b H =
     (case b of PyNone \<Rightarrow> False | PyInt0 \<Rightarrow> True | PyTensor t \<Rightarrow> shape t = [H] \<and> wf_tensor t)"

definition step_formula ::
  "'a scalar_ops \<Rightarrow> 'a tensor \<Rightarrow> 'a tensor \<Rightarrow> 'a tensor \<Rightarrow> 'a arg \<Rightarrow> 'a tensor \<Rightarrow> 'a arg
     \<Rightarrow> activation \<Rightarrow> nat \<Rightarrow> nat \<Rightarrow> nat \<Rightarrow> 'a tensor" where
  "step_formula ar prev_hidden inputs weight_hh bias_hh weight_ih bias_ih f B H D =
     \<lparr>shape = [B, H],
      data = tabulate2 B H (\<lambda>b h.
               act_fn ar f
                 (s_add ar
                    (s_add ar
                       (s_add ar (dot ar (trow prev_hidden H b) (trow weight_hh H h))
                          (bias_at ar bias_hh h))
                       (dot ar (trow inputs D b) (trow weight_ih D h)))
                    (bias_at ar bias_ih h)))\<rparr>"

text \<open>
  The hidden-state grid of the specification: cell \<open>(t, l)\<close> is the step function of
  layer \<open>l\<close> applied to \<open>hidden_0[l]\<close> if \<open>t = 0\<close>, else to cell \<open>(t - 1, l)\<close>, and to
  \<open>X[t]\<close> if \<open>l = 0\<close>, else to cell \<open>(t, l - 1)\<close>.
\<close>

fun HiddenStateGrid ::
  "'a scalar_ops \<Rightarrow> 'a MyRNN \<Rightarrow> 'a tensor \<Rightarrow> 'a tensor \<Rightarrow> nat \<Rightarrow> nat \<Rightarrow> error + 'a tensor" where
  "HiddenStateGrid ar self X hidden_0 t l =
     (case (if t = 0 then select0 hidden_0 (int l)
            else HiddenStateGrid ar self X hidden_0 (t - 1) l) of
        Inl e \<Rightarrow> Inl e
      | Inr previous_hidden_state \<Rightarrow>
          (case (if l = 0 then select0 X (int t)
                 else HiddenStateGrid ar self X hidden_0 t (l - 1)) of
             Inl e \<Rightarrow> Inl e
           | Inr layer_input \<Rightarrow> layer_step ar self l previous_hidden_state layer_input))"

text \<open>
  The shapes the contract of \<^verbatim>\<open>forward\<close> asks for: the store holds, for every layer
  below \<open>num_layers\<close>, a hidden-to-hidden weight of shape \<open>[H, H]\<close>, an
  input-to-hidden weight of shape \<open>[H, D]\<close> (layer 0) or \<open>[H, H]\<close> (the layers above),
  and each bias either absent or of shape \<open>[H]\<close>; there is at least one layer.
\<close>

definition weight_conformant :: "'a arg \<Rightarrow> nat \<Rightarrow> nat \<Rightarrow> bool" where
  "weight_conformant w H D =
     (case w of PyTensor t \<Rightarrow> shape t = [H, D] \<and> wf_tensor t | _ \<Rightarrow> False)"

definition conformant_store :: "'a MyRNN \<Rightarrow> nat \<Rightarrow> bool" where
  "conformant_store self D =
     (0 < num_layers self \<and>
      (\<forall>l < num_layers self.
         weight_conformant (get_weight self ''weight_hh_l'' l) (hidden_size self) (hidden_size self) \<and>
         weight_conformant (get_weight self ''weight_ih_l'' l) (hidden_size self)
           (if l = 0 then D else hidden_size self) \<and>
         bias_conformant (get_bias self ''bias_hh_l'' l) (hidden_size self) \<and>
         bias_conformant (get_bias self ''bias_ih_l'' l) (hidden_size self)))"

definition conformant_call :: "'a MyRNN \<Rightarrow> 'a tensor \<Rightarrow> 'a tensor \<Rightarrow> nat \<Rightarrow> nat \<Rightarrow> nat \<Rightarrow> bool" where
  \<comment> \<open>\<open>X\<close> of shape \<open>[T, B, D]\<close> and \<open>hidden_0\<close> of shape \<open>[num_layers, B, H]\<close>\<close>
  "conformant_call self X hidden_0 T B D =
     (conformant_store self D \<and>
      shape X = [T, B, D] \<and> wf_tensor X \<and>
      shape hidden_0 = [num_layers self, B, hidden_size self] \<and> wf_tensor hidden_0)"

definition grid_has_nan ::
  "'a scalar_ops \<Rightarrow> 'a MyRNN \<Rightarrow> 'a tensor \<Rightarrow> 'a tensor \<Rightarrow> nat \<Rightarrow> bool" where
  \<comment> \<open>some cell of the grid, over \<open>T\<close> timesteps, holds a NaN\<close>
  "grid_has_nan ar self X hidden_0 T =
     (\<exists>t < T. \<exists>l < num_layers self.
        case HiddenStateGrid ar self X hidden_0 t l of Inl e \<Rightarrow> False | Inr c \<Rightarrow> has_nan ar c)"

definition all_cells :: "nat \<Rightarrow> nat \<Rightarrow> (nat \<times> nat) list" where
  \<comment> \<open>the cells \<open>(t, l)\<close> in time-major order\<close>
  "all_cells T L = concat (map (\<lambda>t. map (\<lambda>l. (t, l)) [0..<L]) [0..<T])"

text \<open>
  The invariant of the double loop: when the cells before \<open>(idx, k)\<close> in time-major
  order have been assigned, the buffer has its shape, each of those cells holds the
  grid's value, and the log lists exactly those cells, in order.
\<close>

definition grid_inv ::
  "'a scalar_ops \<Rightarrow> 'a MyRNN \<Rightarrow> 'a tensor \<Rightarrow> 'a tensor \<Rightarrow> nat \<Rightarrow> nat \<Rightarrow> nat \<Rightarrow> nat
     \<Rightarrow> 'a loop_state \<Rightarrow> bool" where
  "grid_inv ar self X hidden_0 T B idx k st =
     (shape (hidden_states st) = [T, num_layers self, B, hidden_size self] \<and>
      length (data (hidden_states st)) = (T * num_layers self) * (B * hidden_size self) \<and>
      (\<forall>t l. l < num_layers self \<and> (t < idx \<or> (t = idx \<and> l < k)) \<longrightarrow>
         HiddenStateGrid ar self X hidden_0 t l
         = Inr \<lparr>shape = [B, hidden_size self],
                data = chunk (B * hidden_size self) (t * num_layers self + l)
                         (data (hidden_states st))\<rparr>) \<and>
      written st = all_cells idx (num_layers self) @ map (\<lambda>l. (idx, l)) [0..<k])"

text \<open>
  Two stores that differ only in their biases: in one every bias is absent, in the
  other every bias is the all-zero tensor of shape \<open>[H]\<close>. The weights are present and
  have \<open>H\<close> rows, as those of a recurrent model with hidden size \<open>H\<close> do.
\<close>

definition has_rows :: "'a arg \<Rightarrow> nat \<Rightarrow> bool" where
  \<comment> \<open>a weight that is present and is a matrix with \<open>H\<close> rows\<close>
  "has_rows w H = (case w of PyTensor t \<Rightarrow> (\<exists>k. shape t = [H, k]) | _ \<Rightarrow> False)"

definition zero_bias_twin :: "'a scalar_ops \<Rightarrow> 'a MyRNN \<Rightarrow> 'a MyRNN \<Rightarrow> bool" where
  \<comment> \<open>\<open>zb\<close> is the store \<open>nb\<close>, which has no bias, with all-zero biases of shape \<open>[H]\<close> added\<close>
  "zero_bias_twin ar nb zb =
     (num_layers zb = num_layers nb \<and> hidden_size zb = hidden_size nb \<and>
      activation_func zb = activation_func nb \<and>
      (\<forall>l < num_layers nb.
         get_weight zb ''weight_hh_l'' l = get_weight nb ''weight_hh_l'' l \<and>
         get_weight zb ''weight_ih_l'' l = get_weight nb ''weight_ih_l'' l \<and>
         has_rows (get_weight nb ''weight_hh_l'' l) (hidden_size nb) \<and>
         has_rows (get_weight nb ''weight_ih_l'' l) (hidden_size nb) \<and>
         get_bias nb ''bias_hh_l'' l = PyInt0 \<and>
         get_bias nb ''bias_ih_l'' l = PyInt0 \<and>
         get_bias zb ''bias_hh_l'' l = PyTensor (torch_zeros ar [hidden_size nb]) \<and>
         get_bias zb ''bias_ih_l'' l = PyTensor (torch_zeros ar [hidden_size nb])))"

definition buffer_shape :: "'a MyRNN \<Rightarrow> nat \<Rightarrow> nat \<Rightarrow> 'a loop_state \<Rightarrow> bool" where
  \<comment> \<open>the buffer keeps the shape and the size it was allocated with\<close>
  "buffer_shape self T B st =
     (shape (hidden_states st) = [T, num_layers self, B, hidden_size self] \<and>
      length (data (hidden_states st)) = (T * num_layers self) * (B * hidden_size self))"

subsection \<open>Concrete models and inputs\<close>

text \<open>
  A two-layer rectified-linear model with hidden size 2 and input size 1, with the
  parameter names and the order in which a recurrent model lists them, an input
  sequence of two timesteps with batch size 1, and an initial hidden state.
\<close>

definition demo_rnn :: "fl rnn" where
  "demo_rnn =
     \<lparr>rnn_num_layers = 2, rnn_hidden_size = 2, rnn_nonlinearity = ''relu'',
      rnn_named_parameters =
        [(''weight_ih_l0'', \<lparr>shape = [2, 1], data = [Fin 1, Fin 2]\<rparr>),
         (''weight_hh_l0'', \<lparr>shape = [2, 2], data = [Fin 1, Fin 0, Fin 0, Fin 1]\<rparr>),
         (''bias_ih_l0'', \<lparr>shape = [2], data = [Fin 1, Fin 0]\<rparr>),
         (''bias_hh_l0'', \<lparr>shape = [2], data = [Fin 0, Fin 1]\<rparr>),
         (''weight_ih_l1'', \<lparr>shape = [2, 2], data = [Fin 1, Fin 1, Fin 0, Fin 1]\<rparr>),
         (''weight_hh_l1'', \<lparr>shape = [2, 2], data = [Fin 0, Fin 1, Fin 1, Fin 0]\<rparr>),
         (''bias_ih_l1'', \<lparr>shape = [2], data = [Fin 0, Fin 0]\<rparr>),
         (''bias_hh_l1'', \<lparr>shape = [2], data = [Fin 1, Fin 1]\<rparr>)]\<rparr>"

definition demo :: "fl MyRNN" where
  "demo = MyRNN_init demo_rnn"

definition demo_X :: "fl tensor" where
  "demo_X = \<lparr>shape = [2, 1, 1], data = [Fin 1, Fin 2]\<rparr>"

definition demo_h0 :: "fl tensor" where
  "demo_h0 = \<lparr>shape = [2, 1, 2], data = [Fin 0, Fin 1, Fin 1, Fin 0]\<rparr>"

text \<open>
  An empty input sequence; and a one-layer tanh model whose weights are all zero, with an
  input that holds an infinity.
\<close>

definition empty_X :: "fl tensor" where
  "empty_X = \<lparr>shape = [0, 1, 1], data = []\<rparr>"

definition zero_rnn :: "fl rnn" where
  "zero_rnn =
     \<lparr>rnn_num_layers = 1, rnn_hidden_size = 1, rnn_nonlinearity = ''tanh'',
      rnn_named_parameters =
        [(''weight_ih_l0'', \<lparr>shape = [1, 1], data = [Fin 0]\<rparr>),
         (''weight_hh_l0'', \<lparr>shape = [1, 1], data = [Fin 0]\<rparr>),
         (''bias_ih_l0'', \<lparr>shape = [1], data = [Fin 0]\<rparr>),
         (''bias_hh_l0'', \<lparr>shape = [1], data = [Fin 0]\<rparr>)]\<rparr>"

definition inf_X :: "fl tensor" where
  "inf_X = \<lparr>shape = [1, 1, 1], data = [PInf]\<rparr>"

definition zero_h0 :: "fl tensor" where
  "zero_h0 = \<lparr>shape = [1, 1, 1], data = [Fin 0]\<rparr>"

text \<open>
  Two initial hidden states with one layer more than the model has, the extra layer of
  the first holding a NaN; an input with three features where layer 0 takes one; the two-layer model without biases and with
  all-zero biases; and a one-layer model.
\<close>

definition demo_h0_extra :: "fl tensor" where
  "demo_h0_extra = \<lparr>shape = [3, 1, 2], data = [Fin 0, Fin 1, Fin 1, Fin 0, Fin 9, NaN]\<rparr>"



definition demo_nobias_rnn :: "fl rnn" where
  "demo_nobias_rnn =
     \<lparr>rnn_num_layers = 2, rnn_hidden_size = 2, rnn_nonlinearity = ''relu'',
      rnn_named_parameters =
        [(''weight_ih_l0'', \<lparr>shape = [2, 1], data = [Fin 1, Fin 2]\<rparr>),
         (''weight_hh_l0'', \<lparr>shape = [2, 2], data = [Fin 1, Fin 0, Fin 0, Fin 1]\<rparr>),
         (''weight_ih_l1'', \<lparr>shape = [2, 2], data = [Fin 1, Fin 1, Fin 0, Fin 1]\<rparr>),
         (''weight_hh_l1'', \<lparr>shape = [2, 2], data = [Fin 0, Fin 1, Fin 1, Fin 0]\<rparr>)]\<rparr>"

definition demo_zerobias_rnn :: "fl rnn" where
  "demo_zerobias_rnn =
     \<lparr>rnn_num_layers = 2, rnn_hidden_size = 2, rnn_nonlinearity = ''relu'',
      rnn_named_parameters =
        [(''weight_ih_l0'', \<lparr>shape = [2, 1], data = [Fin 1, Fin 2]\<rparr>),
         (''weight_hh_l0'', \<lparr>shape = [2, 2], data = [Fin 1, Fin 0, Fin 0, Fin 1]\<rparr>),
         (''bias_ih_l0'', \<lparr>shape = [2], data = [Fin 0, Fin 0]\<rparr>),
         (''bias_hh_l0'', \<lparr>shape = [2], data = [Fin 0, Fin 0]\<rparr>),
         (''weight_ih_l1'', \<lparr>shape = [2, 2], data = [Fin 1, Fin 1, Fin 0, Fin 1]\<rparr>),
         (''weight_hh_l1'', \<lparr>shape = [2, 2], data = [Fin 0, Fin 1, Fin 1, Fin 0]\<rparr>),
         (''bias_ih_l1'', \<lparr>shape = [2], data = [Fin 0, Fin 0]\<rparr>),
         (''bias_hh_l1'', \<lparr>shape = [2], data = [Fin 0, Fin 0]\<rparr>)]\<rparr>"

definition one_layer_rnn :: "fl rnn" where
  "one_layer_rnn =
     \<lparr>rnn_num_layers = 1, rnn_hidden_size = 2, rnn_nonlinearity = ''relu'',
      rnn_named_parameters =
        [(''weight_ih_l0'', \<lparr>shape = [2, 1], data = [Fin 1, Fin 2]\<rparr>),
         (''weight_hh_l0'', \<lparr>shape = [2, 2], data = [Fin 1, Fin 0, Fin 0, Fin 1]\<rparr>),
         (''bias_ih_l0'', \<lparr>shape = [2], data = [Fin 1, Fin 0]\<rparr>),
         (''bias_hh_l0'', \<lparr>shape = [2], data = [Fin 0, Fin 1]\<rparr>)]\<rparr>"




section \<open>Lemmas\<close>

declare HiddenStateGrid.simps [simp del]

subsection \<open>Blocks of a row-major list\<close>

lemma block_le: "(q::nat) < n \<Longrightarrow> q * m + m \<le> n * m"
proof -
  assume "q < n"
  then have "Suc q * m \<le> n * m" by (intro mult_le_mono1) simp
  then show ?thesis by (simp add: add.commute)
qed

lemma chunk_length: "length xs = n * m \<Longrightarrow> q < n \<Longrightarrow> length (chunk m q xs) = m"
  using block_le [of q n m] by (simp add: chunk_def)

lemma chunk_concat:
  "\<forall>xs \<in> set xss. length xs = m \<Longrightarrow> k < length xss \<Longrightarrow> chunk m k (concat xss) = xss ! k"
proof (induction xss arbitrary: k)
  case Nil
  then show ?case by simp
next
  case (Cons x xss)
  show ?case
  proof (cases k)
    case 0
    with Cons.prems show ?thesis by (simp add: chunk_def)
  next
    case (Suc j)
    with Cons.prems have "chunk m j (concat xss) = xss ! j"
      by (intro Cons.IH) auto
    with Suc Cons.prems show ?thesis by (simp add: chunk_def)
  qed
qed

lemma chunk_concat_map:
  "\<forall>i<n. length (f i) = m \<Longrightarrow> k < n \<Longrightarrow> chunk m k (concat (map f [0..<n])) = f k"
  using chunk_concat [of "map f [0..<n]" m k] by simp

lemma length_concat_map:
  "\<forall>i<n. length (f i) = m \<Longrightarrow> length (concat (map f [0..<n])) = n * m"
  by (induction n) (simp_all add: add.commute)

lemma chunk_chunk: "l < L \<Longrightarrow> chunk m l (chunk (L * m) t d) = chunk m (t * L + l) d"
proof -
  assume "l < L"
  then have "l * m + m \<le> L * m" by (rule block_le)
  then have le: "m \<le> L * m - l * m" by linarith
  have eq: "l * m + t * (L * m) = (t * L + l) * m" by (simp add: algebra_simps)
  have "chunk m l (chunk (L * m) t d) = take m (take (L * m - l * m) (drop (l * m) (drop (t * (L * m)) d)))"
    by (simp only: chunk_def drop_take)
  also have "\<dots> = take m (drop (l * m + t * (L * m)) d)"
    using le by (simp only: take_take drop_drop min_absorb1)
  finally show ?thesis by (simp only: eq chunk_def)
qed

lemma chunk_nth: "j < m \<Longrightarrow> k * m + j < length xs \<Longrightarrow> chunk m k xs ! j = xs ! (k * m + j)"
  by (simp add: chunk_def)

lemma length_tabulate2 [simp]: "length (tabulate2 n m f) = n * m"
  unfolding tabulate2_def by (simp add: length_concat_map)

lemma chunk_tabulate2: "i < n \<Longrightarrow> chunk m i (tabulate2 n m f) = map (f i) [0..<m]"
  unfolding tabulate2_def by (rule chunk_concat_map) simp_all

lemma nth_tabulate2: "i < n \<Longrightarrow> j < m \<Longrightarrow> tabulate2 n m f ! (i * m + j) = f i j"
proof -
  assume a: "i < n" "j < m"
  then have "i * m + j < n * m" using block_le [of i n m] by simp
  with a have "tabulate2 n m f ! (i * m + j) = chunk m i (tabulate2 n m f) ! j"
    by (simp add: chunk_nth)
  with a show ?thesis by (simp add: chunk_tabulate2)
qed

lemma tabulate2_cong:
  "(\<And>i j. i < n \<Longrightarrow> j < m \<Longrightarrow> f i j = g i j) \<Longrightarrow> tabulate2 n m f = tabulate2 n m g"
  unfolding tabulate2_def by (auto intro!: arg_cong [where f = concat])

lemma concat_chunks: "concat (map (\<lambda>q. chunk m q d) [0..<n]) = take (n * m) d"
proof (induction n)
  case 0
  show ?case by simp
next
  case (Suc n)
  have "take (Suc n * m) d = take (n * m + m) d" by (simp add: add.commute)
  also have "\<dots> = take (n * m) d @ chunk m n d" by (simp only: take_add chunk_def)
  finally show ?case using Suc by simp
qed

lemma tabulate2_nth_map:
  "length d = n * m \<Longrightarrow> tabulate2 n m (\<lambda>i j. g (d ! (i * m + j))) = map g d"
proof -
  assume len: "length d = n * m"
  have "map (\<lambda>j. g (d ! (i * m + j))) [0..<m] = map g (chunk m i d)" if "i < n" for i
  proof -
    from that have "i * m + m \<le> n * m" by (rule block_le)
    with len that show ?thesis
      by (intro nth_equalityI) (simp_all add: chunk_def)
  qed
  then have "tabulate2 n m (\<lambda>i j. g (d ! (i * m + j))) = concat (map (\<lambda>i. map g (chunk m i d)) [0..<n])"
    unfolding tabulate2_def by (auto intro!: arg_cong [where f = concat])
  also have "\<dots> = map g (concat (map (\<lambda>i. chunk m i d) [0..<n]))"
    by (simp add: map_concat comp_def)
  also have "\<dots> = map g d" using len by (simp add: concat_chunks)
  finally show ?thesis .
qed

lemma write_chunk_length:
  "length d = n * m \<Longrightarrow> q < n \<Longrightarrow> length v = m
   \<Longrightarrow> length (take (q * m) d @ v @ drop (q * m + m) d) = n * m"
  using block_le [of q n m] by simp

lemma write_chunk_same:
  "length d = n * m \<Longrightarrow> q < n \<Longrightarrow> length v = m
   \<Longrightarrow> chunk m q (take (q * m) d @ v @ drop (q * m + m) d) = v"
  using block_le [of q n m] by (simp add: chunk_def)

lemma write_chunk_other:
  assumes "length d = n * m" "q < n" "length v = m" "q' \<noteq> q"
  shows "chunk m q' (take (q * m) d @ v @ drop (q * m + m) d) = chunk m q' d"
proof -
  have qn: "q * m + m \<le> n * m" using assms(2) by (rule block_le)
  then have lt: "length (take (q * m) d) = q * m" using assms(1) by simp
  show ?thesis
  proof (cases "q' < q")
    case True
    then have le: "q' * m + m \<le> q * m" by (rule block_le)
    have "drop (q' * m) (take (q * m) d @ v @ drop (q * m + m) d)
          = drop (q' * m) (take (q * m) d) @ v @ drop (q * m + m) d"
      using le lt True by simp
    moreover have "m \<le> length (drop (q' * m) (take (q * m) d))"
      using le lt by simp
    ultimately have "chunk m q' (take (q * m) d @ v @ drop (q * m + m) d)
          = take m (drop (q' * m) (take (q * m) d))"
      by (simp add: chunk_def)
    also have "\<dots> = take m (take (q * m - q' * m) (drop (q' * m) d))"
      by (simp only: drop_take)
    also have "\<dots> = take m (drop (q' * m) d)"
      using le by (simp only: take_take) (simp add: min_absorb1)
    finally show ?thesis by (simp add: chunk_def)
  next
    case False
    with assms(4) have "q < q'" by simp
    then have le: "q * m + m \<le> q' * m" by (rule block_le)
    then obtain r where r: "q' * m = q * m + m + r" by (metis le_Suc_ex)
    have "drop (q' * m) (take (q * m) d @ v @ drop (q * m + m) d)
          = drop r (drop (q * m + m) d)"
      using lt assms(3) unfolding r by simp
    also have "\<dots> = drop (q' * m) d" unfolding r by (simp add: add.commute)
    finally show ?thesis by (simp add: chunk_def)
  qed
qed

subsection \<open>The tensor operations on conformant shapes\<close>

lemma ebind_Inr [simp]: "ebind (Inr v) f = f v"
  by (simp add: ebind_def)

lemma ebind_Inl [simp]: "ebind (Inl e) f = Inl e"
  by (simp add: ebind_def)

lemma ebind_eq_Inr: "ebind m f = Inr y \<longleftrightarrow> (\<exists>v. m = Inr v \<and> f v = Inr y)"
  by (cases m) simp_all

lemma norm_index_nat: "k < n \<Longrightarrow> norm_index n (int k) = Inr k"
  by (simp add: norm_index_def)

lemma norm_index_pred: "0 < k \<Longrightarrow> k \<le> n \<Longrightarrow> norm_index n (int k - 1) = Inr (k - 1)"
  by (simp add: norm_index_def nat_diff_distrib')

lemma norm_index_last: "0 < n \<Longrightarrow> norm_index n (- 1) = Inr (n - 1)"
  by (simp add: norm_index_def nat_diff_distrib')

lemma norm_index_empty: "norm_index 0 i = Inl IndexError"
  by (simp add: norm_index_def)

lemma select0_nat:
  "shape t = n # rest \<Longrightarrow> k < n
   \<Longrightarrow> select0 t (int k) = Inr \<lparr>shape = rest, data = chunk (prod_list rest) k (data t)\<rparr>"
  by (simp add: select0_def norm_index_nat)

lemma bidx_lt: "i < n \<Longrightarrow> bidx n i = i"
  by (auto simp: bidx_def)

lemma bidx_one: "bidx (Suc 0) i = 0"
  by (simp add: bidx_def)

lemma bdim_same: "bdim a a = Some a"
  by (simp add: bdim_def)

lemma bdim_one: "bdim n (Suc 0) = Some n"
  by (simp add: bdim_def)

lemma tmap_eq: "tmap f t = \<lparr>shape = shape t, data = map f (data t)\<rparr>"
  by (cases t) (simp add: tmap_def)

lemma map_tabulate2: "map g (tabulate2 n m h) = tabulate2 n m (\<lambda>i j. g (h i j))"
  by (simp add: tabulate2_def map_concat comp_def)

lemma transpose2_ok:
  "shape w = [H, k]
   \<Longrightarrow> transpose2 w = Inr \<lparr>shape = [k, H], data = tabulate2 k H (\<lambda>j i. data w ! (i * k + j))\<rparr>"
  by (simp add: transpose2_def)

lemma tcol_transposed:
  "h < H \<Longrightarrow> tcol \<lparr>shape = s, data = tabulate2 k H (\<lambda>j i. data w ! (i * k + j))\<rparr> k H h = trow w k h"
  by (simp add: tcol_def trow_def nth_tabulate2)

lemma matmul_ok:
  "shape a = [n, k] \<Longrightarrow> shape b = [k, m]
   \<Longrightarrow> matmul ar a b
       = Inr \<lparr>shape = [n, m], data = tabulate2 n m (\<lambda>i j. dot ar (trow a k i) (tcol b k m j))\<rparr>"
  by (simp add: matmul_def)

lemma matmul_transposed:
  assumes "shape a = [n, k]" "shape w = [H, k]"
  shows "ebind (transpose2 w) (matmul ar a)
         = Inr \<lparr>shape = [n, H], data = tabulate2 n H (\<lambda>i j. dot ar (trow a k i) (trow w k j))\<rparr>"
proof -
  have "tabulate2 n H (\<lambda>i j. dot ar (trow a k i)
            (tcol \<lparr>shape = [k, H], data = tabulate2 k H (\<lambda>j i. data w ! (i * k + j))\<rparr> k H j))
        = tabulate2 n H (\<lambda>i j. dot ar (trow a k i) (trow w k j))"
    by (rule tabulate2_cong) (simp add: tcol_transposed)
  then show ?thesis
    using assms by (simp add: transpose2_ok matmul_ok)
qed

lemma add_arg_ok:
  assumes "shape x = [n, H]" "length (data x) = n * H" "bias_conformant b H"
  shows "add_arg ar x b
         = Inr \<lparr>shape = [n, H],
                data = tabulate2 n H (\<lambda>i j. s_add ar (data x ! (i * H + j)) (bias_at ar b j))\<rparr>"
proof (cases b)
  case PyNone
  with assms(3) show ?thesis by (simp add: bias_conformant_def)
next
  case PyInt0
  have "tabulate2 n H (\<lambda>i j. s_add ar (data x ! (i * H + j)) (s_zero ar))
        = map (\<lambda>v. s_add ar v (s_zero ar)) (data x)"
    using assms(2) by (rule tabulate2_nth_map)
  with PyInt0 assms(1) show ?thesis
    by (simp add: add_arg_def tmap_eq bias_at_def)
next
  case (PyTensor y)
  with assms(3) have sy: "shape y = [H]" by (simp add: bias_conformant_def)
  have "tabulate2 n H (\<lambda>i j. s_add ar (bget x (n, H) i j) (bget y (1, H) i j))
        = tabulate2 n H (\<lambda>i j. s_add ar (data x ! (i * H + j)) (data y ! j))"
    by (rule tabulate2_cong) (simp add: bget_def bidx_lt bidx_one)
  with PyTensor assms(1) sy show ?thesis
    by (simp add: add_arg_def tadd_def view2_def bdim_same bdim_one bias_at_def)
qed

lemma tadd_same_shape:
  assumes "shape x = [n, H]" "shape y = [n, H]"
  shows "tadd ar x y
         = Inr \<lparr>shape = [n, H],
                data = tabulate2 n H (\<lambda>i j. s_add ar (data x ! (i * H + j)) (data y ! (i * H + j)))\<rparr>"
proof -
  have "tabulate2 n H (\<lambda>i j. s_add ar (bget x (n, H) i j) (bget y (n, H) i j))
        = tabulate2 n H (\<lambda>i j. s_add ar (data x ! (i * H + j)) (data y ! (i * H + j)))"
    by (rule tabulate2_cong) (simp add: bget_def bidx_lt)
  with assms show ?thesis
    by (simp add: tadd_def view2_def bdim_same)
qed

lemma apply_activation_eq: "apply_activation ar f t = tmap (act_fn ar f) t"
  by (cases f) (simp_all add: apply_activation_def act_fn_def)

lemma compute_new_hidden_state_formula:
  assumes "shape prev = [B, H]" "shape inputs = [B, D]"
    and "shape w_hh = [H, H]" "shape w_ih = [H, D]"
    and "bias_conformant bias_hh H" "bias_conformant bias_ih H"
  shows "compute_new_hidden_state ar prev inputs (PyTensor w_hh) bias_hh (PyTensor w_ih) bias_ih f
         = Inr (step_formula ar prev inputs w_hh bias_hh w_ih bias_ih f B H D)"
proof -
  define a where "a = \<lparr>shape = [B, H], data = tabulate2 B H (\<lambda>i j. dot ar (trow prev H i) (trow w_hh H j))\<rparr>"
  define b where "b = \<lparr>shape = [B, H],
      data = tabulate2 B H (\<lambda>i j. s_add ar (data a ! (i * H + j)) (bias_at ar bias_hh j))\<rparr>"
  define c where "c = \<lparr>shape = [B, H], data = tabulate2 B H (\<lambda>i j. dot ar (trow inputs D i) (trow w_ih D j))\<rparr>"
  define d where "d = \<lparr>shape = [B, H],
      data = tabulate2 B H (\<lambda>i j. s_add ar (data b ! (i * H + j)) (data c ! (i * H + j)))\<rparr>"
  define e where "e = \<lparr>shape = [B, H],
      data = tabulate2 B H (\<lambda>i j. s_add ar (data d ! (i * H + j)) (bias_at ar bias_ih j))\<rparr>"
  have 1: "ebind (transpose2 w_hh) (matmul ar prev) = Inr a"
    unfolding a_def using assms(1,3) by (rule matmul_transposed)
  have 2: "add_arg ar a bias_hh = Inr b"
    unfolding b_def by (rule add_arg_ok) (simp_all add: a_def assms)
  have 3: "ebind (transpose2 w_ih) (matmul ar inputs) = Inr c"
    unfolding c_def using assms(2,4) by (rule matmul_transposed)
  have 4: "tadd ar b c = Inr d"
    unfolding d_def by (rule tadd_same_shape) (simp_all add: b_def c_def)
  have 5: "add_arg ar d bias_ih = Inr e"
    unfolding e_def by (rule add_arg_ok) (simp_all add: d_def assms)
  have 6: "data e = tabulate2 B H (\<lambda>i j. s_add ar (s_add ar (s_add ar
               (dot ar (trow prev H i) (trow w_hh H j)) (bias_at ar bias_hh j))
               (dot ar (trow inputs D i) (trow w_ih D j))) (bias_at ar bias_ih j))"
    unfolding e_def
    by (simp, rule tabulate2_cong) (simp add: d_def c_def b_def a_def nth_tabulate2)
  have 7: "shape e = [B, H]" by (simp add: e_def)
  have "compute_new_hidden_state ar prev inputs (PyTensor w_hh) bias_hh (PyTensor w_ih) bias_ih f
        = Inr (apply_activation ar f e)"
  proof -
    from 1 obtain u where u: "transpose2 w_hh = Inr u" "matmul ar prev u = Inr a"
      by (auto simp: ebind_eq_Inr)
    from 3 obtain v where v: "transpose2 w_ih = Inr v" "matmul ar inputs v = Inr c"
      by (auto simp: ebind_eq_Inr)
    show ?thesis
      by (simp add: compute_new_hidden_state_def arg_T_def u v 2 4 5)
  qed
  also have "apply_activation ar f e = step_formula ar prev inputs w_hh bias_hh w_ih bias_ih f B H D"
    by (simp add: apply_activation_eq tmap_eq 6 7 step_formula_def map_tabulate2)
  finally show ?thesis .
qed

subsection \<open>The loops\<close>

lemma for_each_append: "for_each (xs @ ys) f s = ebind (for_each xs f s) (for_each ys f)"
  by (induction xs arbitrary: s) (simp_all add: ebind_def split: sum.splits)

lemma for_each_cong:
  "(\<And>x s. x \<in> set xs \<Longrightarrow> f x s = g x s) \<Longrightarrow> for_each xs f s = for_each xs g s"
  by (induction xs arbitrary: s) (simp_all add: ebind_def split: sum.splits)

lemma for_each_upt_inv:
  assumes "P 0 s"
    and step: "\<And>i s. i < n \<Longrightarrow> P i s \<Longrightarrow> \<exists>s'. f i s = Inr s' \<and> P (Suc i) s'"
  shows "\<exists>s'. for_each [0..<n] f s = Inr s' \<and> P n s'"
proof -
  have "k \<le> n \<Longrightarrow> \<exists>s'. for_each [0..<k] f s = Inr s' \<and> P k s'" for k
  proof (induction k)
    case 0
    with assms(1) show ?case by simp
  next
    case (Suc k)
    then obtain s1 where s1: "for_each [0..<k] f s = Inr s1" "P k s1" by auto
    from Suc.prems s1(2) obtain s2 where "f k s1 = Inr s2" "P (Suc k) s2"
      using step [of k s1] by auto
    with s1(1) show ?case by (simp add: for_each_append)
  qed
  then show ?thesis by simp
qed

lemma layer_step_conformant:
  assumes "conformant_store self D" "l < num_layers self"
    and "shape p = [B, hidden_size self]"
    and "shape i = [B, if l = 0 then D else hidden_size self]"
  shows "\<exists>c. layer_step ar self l p i = Inr c \<and> shape c = [B, hidden_size self]
             \<and> length (data c) = B * hidden_size self"
proof -
  let ?H = "hidden_size self"
  from assms(1,2) have
    cw: "weight_conformant (get_weight self ''weight_hh_l'' l) ?H ?H" and
    cu: "weight_conformant (get_weight self ''weight_ih_l'' l) ?H (if l = 0 then D else ?H)" and
    b: "bias_conformant (get_bias self ''bias_hh_l'' l) ?H"
       "bias_conformant (get_bias self ''bias_ih_l'' l) ?H"
    unfolding conformant_store_def by blast+
  from cw obtain w where w: "get_weight self ''weight_hh_l'' l = PyTensor w" "shape w = [?H, ?H]"
    unfolding weight_conformant_def by (cases "get_weight self ''weight_hh_l'' l") simp_all
  from cu obtain u where
    u: "get_weight self ''weight_ih_l'' l = PyTensor u" "shape u = [?H, if l = 0 then D else ?H]"
    unfolding weight_conformant_def by (cases "get_weight self ''weight_ih_l'' l") simp_all
  have "layer_step ar self l p i
        = Inr (step_formula ar p i w (get_bias self ''bias_hh_l'' l) u (get_bias self ''bias_ih_l'' l)
                 (activation_func self) B ?H (if l = 0 then D else ?H))"
    unfolding layer_step_def w(1) u(1)
    using assms(3,4) w(2) u(2) b by (rule compute_new_hidden_state_formula)
  then show ?thesis by (simp add: step_formula_def)
qed

lemma select0_shape:
  "shape t = n # rest \<Longrightarrow> k < n \<Longrightarrow> \<exists>c. select0 t (int k) = Inr c \<and> shape c = rest"
  by (simp add: select0_nat)

lemma grid_cell_ok:
  "conformant_call self X hidden_0 T B D \<Longrightarrow> t < T \<Longrightarrow> l < num_layers self
   \<Longrightarrow> \<exists>c. HiddenStateGrid ar self X hidden_0 t l = Inr c \<and> shape c = [B, hidden_size self]
           \<and> length (data c) = B * hidden_size self"
proof (induction ar self X hidden_0 t l rule: HiddenStateGrid.induct)
  case (1 ar self X hidden_0 t l)
  let ?H = "hidden_size self"
  from "1.prems"(1) have cs: "conformant_store self D"
    and sx: "shape X = [T, B, D]"
    and sh: "shape hidden_0 = [num_layers self, B, ?H]"
    by (simp_all add: conformant_call_def)
  have "\<exists>p. (if t = 0 then select0 hidden_0 (int l)
             else HiddenStateGrid ar self X hidden_0 (t - 1) l) = Inr p \<and> shape p = [B, ?H]"
  proof (cases "t = 0")
    case True
    with sh "1.prems"(3) show ?thesis by (simp add: select0_nat)
  next
    case False
    from "1.prems"(2) have "t - 1 < T" by simp
    from "1.IH"(1) [OF False "1.prems"(1) this "1.prems"(3)] False show ?thesis by auto
  qed
  then obtain p where p: "(if t = 0 then select0 hidden_0 (int l)
             else HiddenStateGrid ar self X hidden_0 (t - 1) l) = Inr p" "shape p = [B, ?H]"
    by blast
  have "\<exists>i. (if l = 0 then select0 X (int t)
             else HiddenStateGrid ar self X hidden_0 t (l - 1)) = Inr i
            \<and> shape i = [B, if l = 0 then D else ?H]"
  proof (cases "l = 0")
    case True
    with sx "1.prems"(2) show ?thesis by (simp add: select0_nat)
  next
    case False
    from "1.prems"(3) have "l - 1 < num_layers self" by simp
    from "1.IH"(2) [OF p(1) False "1.prems"(1,2) this] False show ?thesis by auto
  qed
  then obtain i where i: "(if l = 0 then select0 X (int t)
             else HiddenStateGrid ar self X hidden_0 t (l - 1)) = Inr i"
     "shape i = [B, if l = 0 then D else ?H]"
    by blast
  have "HiddenStateGrid ar self X hidden_0 t l = layer_step ar self l p i"
    by (subst HiddenStateGrid.simps) (simp only: p(1) i(1) sum.case)
  with layer_step_conformant [OF cs "1.prems"(3) p(2) i(2), of ar] show ?case by simp
qed

lemma cell_index_lt: "t < T \<Longrightarrow> l < L \<Longrightarrow> t * L + l < T * (L::nat)"
  using block_le [of t T L] by simp

lemma cell_index_inj:
  assumes "l < L" "k < L" "t * L + l = idx * L + (k::nat)"
  shows "t = idx \<and> l = k"
proof -
  from assms(1) have "(t * L + l) div L = t" "(t * L + l) mod L = l" by simp_all
  moreover from assms(2) have "(idx * L + k) div L = idx" "(idx * L + k) mod L = k" by simp_all
  ultimately show ?thesis using assms(3) by simp
qed

lemma select01_grid:
  assumes "shape hs = [T, L, B, H]" "t < T" "l < L"
  shows "ebind (select0 hs (int t)) (\<lambda>r. select0 r (int l))
         = Inr \<lparr>shape = [B, H], data = chunk (B * H) (t * L + l) (data hs)\<rparr>"
  using assms by (simp add: select0_nat chunk_chunk)

lemma select0_grid_row:
  assumes "shape hs = [T, L, B, H]" "t < T"
  shows "select0 hs (int t) = Inr \<lparr>shape = [L, B, H], data = chunk (L * (B * H)) t (data hs)\<rparr>"
  using assms by (simp add: select0_nat)

lemma expand2_id:
  assumes "shape c = [B, H]" "length (data c) = B * H"
  shows "expand2 c B H = Inr (data c)"
proof -
  have "tabulate2 B H (\<lambda>i j. bget c (B, H) i j) = tabulate2 B H (\<lambda>i j. id (data c ! (i * H + j)))"
    by (rule tabulate2_cong) (simp add: bget_def bidx_lt)
  also have "\<dots> = map id (data c)" using assms(2) by (rule tabulate2_nth_map)
  finally show ?thesis using assms(1) by (simp add: expand2_def view2_def)
qed

lemma setitem01_ok:
  assumes "shape hs = [T, L, B, H]" "t < T" "l < L" "shape c = [B, H]" "length (data c) = B * H"
  shows "setitem01 hs (int t) (int l) c
         = Inr (hs\<lparr>data := take ((t * L + l) * (B * H)) (data hs) @ data c
                              @ drop ((t * L + l) * (B * H) + B * H) (data hs)\<rparr>)"
  using assms by (simp add: setitem01_def norm_index_nat expand2_id)

lemma all_cells_Suc: "all_cells (Suc T) L = all_cells T L @ map (\<lambda>l. (T, l)) [0..<L]"
  by (simp add: all_cells_def)

lemma grid_inv_next_row:
  "grid_inv ar self X hidden_0 T B idx (num_layers self) st
   \<Longrightarrow> grid_inv ar self X hidden_0 T B (Suc idx) 0 st"
  unfolding grid_inv_def by (auto simp: all_cells_Suc less_Suc_eq)

lemma loop_body_inv:
  assumes conf: "conformant_call self X hidden_0 T B D"
    and inv: "grid_inv ar self X hidden_0 T B idx k st"
    and idx: "idx < T" and k: "k < num_layers self"
  shows "\<exists>st'. loop_body ar self X hidden_0 idx k st = Inr st'
               \<and> grid_inv ar self X hidden_0 T B idx (Suc k) st'"
proof -
  let ?L = "num_layers self" and ?H = "hidden_size self"
  let ?hs = "hidden_states st"
  let ?G = "HiddenStateGrid ar self X hidden_0"
  let ?q = "idx * ?L + k"
  from inv have sh: "shape ?hs = [T, ?L, B, ?H]"
    and len: "length (data ?hs) = (T * ?L) * (B * ?H)"
    and cells: "\<And>t l. l < ?L \<Longrightarrow> t < idx \<or> (t = idx \<and> l < k)
        \<Longrightarrow> ?G t l = Inr \<lparr>shape = [B, ?H], data = chunk (B * ?H) (t * ?L + l) (data ?hs)\<rparr>"
    and wr: "written st = all_cells idx ?L @ map (\<lambda>l. (idx, l)) [0..<k]"
    unfolding grid_inv_def by blast+
  from grid_cell_ok [OF conf idx k] obtain c where
    c: "?G idx k = Inr c" "shape c = [B, ?H]" "length (data c) = B * ?H" by blast
  let ?P = "if idx = 0 then select0 hidden_0 (int k) else ?G (idx - 1) k"
  let ?I = "if k = 0 then select0 X (int idx) else ?G idx (k - 1)"
  from c(1) have unf: "(case ?P of Inl e \<Rightarrow> Inl e
        | Inr p \<Rightarrow> (case ?I of Inl e \<Rightarrow> Inl e | Inr i \<Rightarrow> layer_step ar self k p i)) = Inr c"
    by (subst (asm) HiddenStateGrid.simps)
  then obtain p where p: "?P = Inr p"
    by (cases ?P) simp_all
  with unf have unf2: "(case ?I of Inl e \<Rightarrow> Inl e | Inr i \<Rightarrow> layer_step ar self k p i) = Inr c"
    by (simp only: sum.case)
  then obtain i where i: "?I = Inr i"
    by (cases ?I) simp_all
  with unf2 have step: "layer_step ar self k p i = Inr c"
    by (simp only: sum.case)
  have prev: "ebind (if idx = 0 then Inr hidden_0 else select0 ?hs (int idx - 1))
                (\<lambda>ps. ebind (Inr i) (\<lambda>inputs. ebind (select0 ps (int k)) (f inputs)))
              = f i p" for f :: "'a tensor \<Rightarrow> 'a tensor \<Rightarrow> error + 'a loop_state"
  proof (cases "idx = 0")
    case True
    with p show ?thesis by simp
  next
    case False
    then have e: "int idx - 1 = int (idx - 1)" by simp
    from False idx have lt: "idx - 1 < T" by simp
    have row: "select0 ?hs (int idx - 1)
               = Inr \<lparr>shape = [?L, B, ?H], data = chunk (?L * (B * ?H)) (idx - 1) (data ?hs)\<rparr>"
      unfolding e using sh lt by (rule select0_grid_row)
    have "select0 \<lparr>shape = [?L, B, ?H], data = chunk (?L * (B * ?H)) (idx - 1) (data ?hs)\<rparr> (int k)
          = Inr \<lparr>shape = [B, ?H], data = chunk (B * ?H) ((idx - 1) * ?L + k) (data ?hs)\<rparr>"
      using k by (simp add: select0_nat chunk_chunk)
    also from False have "\<dots> = ?G (idx - 1) k"
      by (intro cells [symmetric] k) simp
    also have "\<dots> = Inr p" using p False by simp
    finally show ?thesis using False by (simp add: row)
  qed
  have inp: "(if k = 0 then select0 X (int idx)
              else ebind (select0 ?hs (int idx)) (\<lambda>r. select0 r (int k - 1))) = Inr i"
  proof (cases "k = 0")
    case True
    with i show ?thesis by simp
  next
    case False
    then have e: "int k - 1 = int (k - 1)" by simp
    from False k have lt: "k - 1 < ?L" by simp
    have "ebind (select0 ?hs (int idx)) (\<lambda>r. select0 r (int k - 1))
          = Inr \<lparr>shape = [B, ?H], data = chunk (B * ?H) (idx * ?L + (k - 1)) (data ?hs)\<rparr>"
      unfolding e using sh idx lt by (rule select01_grid)
    also from False lt have "\<dots> = ?G idx (k - 1)"
      by (intro cells [symmetric]) simp_all
    also have "\<dots> = Inr i" using i False by simp
    finally show ?thesis using False by simp
  qed
  define d' where "d' = take (?q * (B * ?H)) (data ?hs) @ data c
                        @ drop (?q * (B * ?H) + B * ?H) (data ?hs)"
  define st' where "st' = \<lparr>hidden_states = ?hs\<lparr>data := d'\<rparr>, written = written st @ [(idx, k)]\<rparr>"
  have body: "loop_body ar self X hidden_0 idx k st = Inr st'"
    unfolding loop_body_def inp prev
    by (simp add: step setitem01_ok [OF sh idx k c(2,3)] st'_def d'_def)
  have q: "?q < T * ?L" using idx k by (rule cell_index_lt)
  have "grid_inv ar self X hidden_0 T B idx (Suc k) st'"
    unfolding grid_inv_def
  proof (intro conjI allI impI)
    show "shape (hidden_states st') = [T, ?L, B, ?H]" by (simp add: st'_def sh)
    show "length (data (hidden_states st')) = (T * ?L) * (B * ?H)"
      using write_chunk_length [OF len q c(3)] by (simp add: st'_def d'_def)
    show "written st' = all_cells idx ?L @ map (\<lambda>l. (idx, l)) [0..<Suc k]"
      by (simp add: st'_def wr)
  next
    fix t l
    assume a: "l < ?L \<and> (t < idx \<or> (t = idx \<and> l < Suc k))"
    show "?G t l = Inr \<lparr>shape = [B, ?H],
             data = chunk (B * ?H) (t * ?L + l) (data (hidden_states st'))\<rparr>"
    proof (cases "t = idx \<and> l = k")
      case True
      have "chunk (B * ?H) ?q d' = data c"
        unfolding d'_def using len q c(3) by (rule write_chunk_same)
      with True c(1,2) show ?thesis by (simp add: st'_def)
    next
      case False
      with a have old: "t < idx \<or> (t = idx \<and> l < k)" by auto
      from False a k have "t * ?L + l \<noteq> ?q" using cell_index_inj [of l ?L k t idx] by blast
      with len q c(3) have "chunk (B * ?H) (t * ?L + l) d' = chunk (B * ?H) (t * ?L + l) (data ?hs)"
        unfolding d'_def by (intro write_chunk_other) auto
      with cells [OF _ old] a show ?thesis by (simp add: st'_def)
    qed
  qed
  with body show ?thesis by blast
qed

lemma inner_loop_inv:
  assumes conf: "conformant_call self X hidden_0 T B D"
    and inv: "grid_inv ar self X hidden_0 T B idx 0 st" and idx: "idx < T"
  shows "\<exists>st'. for_each [0..<num_layers self] (\<lambda>layer. loop_body ar self X hidden_0 idx layer) st
                 = Inr st'
               \<and> grid_inv ar self X hidden_0 T B (Suc idx) 0 st'"
proof -
  have "\<exists>st'. for_each [0..<num_layers self] (\<lambda>layer. loop_body ar self X hidden_0 idx layer) st
                 = Inr st'
               \<and> grid_inv ar self X hidden_0 T B idx (num_layers self) st'"
    using inv
    by (rule for_each_upt_inv [where P = "grid_inv ar self X hidden_0 T B idx"])
       (rule loop_body_inv [OF conf _ idx])
  then show ?thesis by (blast intro: grid_inv_next_row)
qed

lemma initial_inv: "grid_inv ar self X hidden_0 T B 0 0 (initial_state ar self T B)"
  by (simp add: grid_inv_def initial_state_def fill_all_def torch_zeros_def torch_full_def
      all_cells_def)

lemma run_loops_inv:
  assumes conf: "conformant_call self X hidden_0 T B D"
  shows "\<exists>st. run_loops ar self X hidden_0 T (initial_state ar self T B) = Inr st
              \<and> grid_inv ar self X hidden_0 T B T 0 st"
  unfolding run_loops_def
  using initial_inv
  by (rule for_each_upt_inv [where P = "\<lambda>idx. grid_inv ar self X hidden_0 T B idx 0"])
     (rule inner_loop_inv [OF conf])

lemma shape_at_conformant:
  "shape X = [T, B, D] \<Longrightarrow> shape_at X 0 = Inr T \<and> shape_at X 1 = Inr B"
  by (simp add: shape_at_def)

lemma list_ex_chunks:
  assumes "length d = n * m"
  shows "list_ex P d \<longleftrightarrow> (\<exists>q < n. list_ex P (chunk m q d))"
proof -
  have "d = concat (map (\<lambda>q. chunk m q d) [0..<n])"
    using assms by (simp add: concat_chunks)
  then have "list_ex P d \<longleftrightarrow> list_ex P (concat (map (\<lambda>q. chunk m q d) [0..<n]))"
    by simp
  also have "\<dots> \<longleftrightarrow> (\<exists>q < n. list_ex P (chunk m q d))"
    by (auto simp: list_ex_iff)
  finally show ?thesis .
qed

lemma final_has_nan:
  assumes inv: "grid_inv ar self X hidden_0 T B T 0 st"
  shows "has_nan ar (hidden_states st) \<longleftrightarrow> grid_has_nan ar self X hidden_0 T"
proof -
  let ?L = "num_layers self" and ?m = "B * hidden_size self"
  let ?d = "data (hidden_states st)"
  from inv have len: "length ?d = (T * ?L) * ?m"
    and cells: "\<And>t l. l < ?L \<Longrightarrow> t < T
        \<Longrightarrow> HiddenStateGrid ar self X hidden_0 t l
            = Inr \<lparr>shape = [B, hidden_size self], data = chunk ?m (t * ?L + l) ?d\<rparr>"
    unfolding grid_inv_def by blast+
  have "has_nan ar (hidden_states st) \<longleftrightarrow> (\<exists>q < T * ?L. list_ex (s_isnan ar) (chunk ?m q ?d))"
    unfolding has_nan_def using len by (rule list_ex_chunks)
  also have "\<dots> \<longleftrightarrow> (\<exists>t < T. \<exists>l < ?L. list_ex (s_isnan ar) (chunk ?m (t * ?L + l) ?d))"
  proof
    assume "\<exists>q < T * ?L. list_ex (s_isnan ar) (chunk ?m q ?d)"
    then obtain q where q: "q < T * ?L" "list_ex (s_isnan ar) (chunk ?m q ?d)" by blast
    then have L: "0 < ?L" by (cases "?L = 0") simp_all
    with q(1) have "q div ?L < T" by (simp add: less_mult_imp_div_less)
    moreover from L have "q mod ?L < ?L" by simp
    moreover have "q div ?L * ?L + q mod ?L = q" by simp
    ultimately show "\<exists>t < T. \<exists>l < ?L. list_ex (s_isnan ar) (chunk ?m (t * ?L + l) ?d)"
      using q(2) by metis
  next
    assume "\<exists>t < T. \<exists>l < ?L. list_ex (s_isnan ar) (chunk ?m (t * ?L + l) ?d)"
    then show "\<exists>q < T * ?L. list_ex (s_isnan ar) (chunk ?m q ?d)"
      using cell_index_lt by blast
  qed
  also have "\<dots> \<longleftrightarrow> grid_has_nan ar self X hidden_0 T"
  proof -
    have "(case HiddenStateGrid ar self X hidden_0 t l of Inl e \<Rightarrow> False | Inr c \<Rightarrow> has_nan ar c)
          = list_ex (s_isnan ar) (chunk ?m (t * ?L + l) ?d)" if "t < T" "l < ?L" for t l
      using that by (simp add: cells has_nan_def)
    then show ?thesis unfolding grid_has_nan_def by blast
  qed
  finally show ?thesis .
qed

lemma final_outputs:
  assumes inv: "grid_inv ar self X hidden_0 T B T 0 st" and T: "0 < T" and L: "0 < num_layers self"
  shows "\<exists>out hn. select1 (hidden_states st) (- 1) = Inr out
            \<and> select0 (hidden_states st) (- 1) = Inr hn
            \<and> shape out = [T, B, hidden_size self]
            \<and> shape hn = [num_layers self, B, hidden_size self]
            \<and> (\<forall>t < T. select0 out (int t)
                          = HiddenStateGrid ar self X hidden_0 t (num_layers self - 1))
            \<and> (\<forall>l < num_layers self. select0 hn (int l)
                          = HiddenStateGrid ar self X hidden_0 (T - 1) l)"
proof -
  let ?L = "num_layers self" and ?H = "hidden_size self"
  let ?m = "B * ?H"
  let ?d = "data (hidden_states st)"
  from inv have sh: "shape (hidden_states st) = [T, ?L, B, ?H]"
    and len: "length ?d = (T * ?L) * ?m"
    and cells: "\<And>t l. l < ?L \<Longrightarrow> t < T
        \<Longrightarrow> HiddenStateGrid ar self X hidden_0 t l
            = Inr \<lparr>shape = [B, ?H], data = chunk ?m (t * ?L + l) ?d\<rparr>"
    unfolding grid_inv_def by blast+
  define out where "out = \<lparr>shape = [T, B, ?H],
      data = concat (map (\<lambda>a. chunk ?m (a * ?L + (?L - 1)) ?d) [0..<T])\<rparr>"
  define hn where "hn = \<lparr>shape = [?L, B, ?H], data = chunk (?L * ?m) (T - 1) ?d\<rparr>"
  have 1: "select1 (hidden_states st) (- 1) = Inr out"
    using sh L by (simp add: select1_def norm_index_last out_def)
  have 2: "select0 (hidden_states st) (- 1) = Inr hn"
    using sh T by (simp add: select0_def norm_index_last hn_def)
  have 3: "select0 out (int t) = HiddenStateGrid ar self X hidden_0 t (?L - 1)" if "t < T" for t
  proof -
    have "a * ?L + (?L - 1) < T * ?L" if "a < T" for a
      using that L by (intro cell_index_lt) simp_all
    then have "\<forall>a < T. length (chunk ?m (a * ?L + (?L - 1)) ?d) = ?m"
      using chunk_length [OF len] by blast
    then have "chunk ?m t (concat (map (\<lambda>a. chunk ?m (a * ?L + (?L - 1)) ?d) [0..<T]))
               = chunk ?m (t * ?L + (?L - 1)) ?d"
      using that by (rule chunk_concat_map)
    with that L show ?thesis
      by (simp add: out_def select0_nat cells)
  qed
  have 4: "select0 hn (int l) = HiddenStateGrid ar self X hidden_0 (T - 1) l" if "l < ?L" for l
    using that T by (simp add: hn_def select0_nat chunk_chunk cells)
  from 1 2 3 4 show ?thesis by (simp add: out_def hn_def)
qed

lemma forward_unfold:
  assumes "shape X = [T, B, D]"
    and "run_loops ar self X (default_hidden ar self B ho) T (initial_state ar self T B) = Inr st"
  shows "forward ar self X ho
         = (if has_nan ar (hidden_states st) then Inl AssertionError
            else ebind (select1 (hidden_states st) (- 1)) (\<lambda>last_layer_outputs.
                 ebind (select0 (hidden_states st) (- 1)) (\<lambda>final_hidden.
                 Inr (last_layer_outputs, final_hidden))))"
  using assms by (simp add: forward_def shape_at_def)

subsection \<open>The whole forward pass\<close>

declare str_of_nat.simps [simp del]

lemma all_cells_product: "all_cells T L = List.product [0..<T] [0..<L]"
  by (simp add: all_cells_def product_concat_map)

lemma distinct_all_cells: "distinct (all_cells T L)"
  by (simp add: all_cells_product distinct_product)

lemma set_all_cells: "set (all_cells T L) = {0..<T} \<times> {0..<L}"
  by (simp add: all_cells_product)

lemma conformant_layers: "conformant_call self X hidden_0 T B D \<Longrightarrow> 0 < num_layers self"
  by (simp add: conformant_call_def conformant_store_def)

lemma forward_conformant:
  assumes conf: "conformant_call self X hidden_0 T B D"
  shows "\<exists>st. run_loops ar self X hidden_0 T (initial_state ar self T B) = Inr st
              \<and> grid_inv ar self X hidden_0 T B T 0 st
              \<and> forward ar self X (Some hidden_0)
                  = (if grid_has_nan ar self X hidden_0 T then Inl AssertionError
                     else ebind (select1 (hidden_states st) (- 1)) (\<lambda>last_layer_outputs.
                          ebind (select0 (hidden_states st) (- 1)) (\<lambda>final_hidden.
                          Inr (last_layer_outputs, final_hidden))))"
proof -
  from run_loops_inv [OF conf] obtain st where
    st: "run_loops ar self X hidden_0 T (initial_state ar self T B) = Inr st"
        "grid_inv ar self X hidden_0 T B T 0 st" by blast
  from conf have "shape X = [T, B, D]" by (simp add: conformant_call_def)
  then have "forward ar self X (Some hidden_0)
         = (if has_nan ar (hidden_states st) then Inl AssertionError
            else ebind (select1 (hidden_states st) (- 1)) (\<lambda>last_layer_outputs.
                 ebind (select0 (hidden_states st) (- 1)) (\<lambda>final_hidden.
                 Inr (last_layer_outputs, final_hidden))))"
    by (rule forward_unfold) (simp add: default_hidden_def st(1))
  with st final_has_nan [OF st(2)] show ?thesis by auto
qed

lemma forward_grid:
  assumes conf: "conformant_call self X hidden_0 T B D" and T: "0 < T"
    and nan: "\<not> grid_has_nan ar self X hidden_0 T"
  shows "\<exists>out hn. forward ar self X (Some hidden_0) = Inr (out, hn)
           \<and> shape out = [T, B, hidden_size self]
           \<and> shape hn = [num_layers self, B, hidden_size self]
           \<and> (\<forall>t < T. select0 out (int t)
                         = HiddenStateGrid ar self X hidden_0 t (num_layers self - 1))
           \<and> (\<forall>l < num_layers self. select0 hn (int l)
                         = HiddenStateGrid ar self X hidden_0 (T - 1) l)"
proof -
  from forward_conformant [OF conf, of ar] nan obtain st where
    inv: "grid_inv ar self X hidden_0 T B T 0 st" and
    fw: "forward ar self X (Some hidden_0)
         = ebind (select1 (hidden_states st) (- 1)) (\<lambda>last_layer_outputs.
           ebind (select0 (hidden_states st) (- 1)) (\<lambda>final_hidden.
           Inr (last_layer_outputs, final_hidden)))"
    by auto
  from final_outputs [OF inv T conformant_layers [OF conf]] obtain out hn where
    o: "select1 (hidden_states st) (- 1) = Inr out" "select0 (hidden_states st) (- 1) = Inr hn"
       "shape out = [T, B, hidden_size self]" "shape hn = [num_layers self, B, hidden_size self]"
       "\<forall>t < T. select0 out (int t) = HiddenStateGrid ar self X hidden_0 t (num_layers self - 1)"
       "\<forall>l < num_layers self. select0 hn (int l) = HiddenStateGrid ar self X hidden_0 (T - 1) l"
    by blast
  from fw o(1,2) have "forward ar self X (Some hidden_0) = Inr (out, hn)" by simp
  with o(3-6) show ?thesis by blast
qed

lemma demo_fields: "num_layers demo = 2" "hidden_size demo = 2" "activation_func demo = TorchRelu"
  by (simp_all add: demo_def demo_rnn_def MyRNN_init_def)

lemma demo_store: "conformant_store demo 1"
  by (simp add: conformant_store_def demo_fields weight_conformant_def bias_conformant_def
      wf_tensor_def get_weight_def get_bias_def param_key_def str_of_nat.simps
      demo_def demo_rnn_def MyRNN_init_def py_dict_def numeral_2_eq_2 less_Suc_eq)

lemma forward_returns_iff:
  assumes conf: "conformant_call self X hidden_0 T B D" and T: "0 < T"
  shows "(\<exists>out hn. forward ar self X (Some hidden_0) = Inr (out, hn))
         \<longleftrightarrow> \<not> grid_has_nan ar self X hidden_0 T"
proof (cases "grid_has_nan ar self X hidden_0 T")
  case True
  with forward_conformant [OF conf, of ar] show ?thesis by auto
next
  case False
  with forward_grid [OF conf T False] show ?thesis by blast
qed

lemma forward_assertion_iff:
  assumes conf: "conformant_call self X hidden_0 T B D" and T: "0 < T"
  shows "forward ar self X (Some hidden_0) = Inl AssertionError
         \<longleftrightarrow> grid_has_nan ar self X hidden_0 T"
proof (cases "grid_has_nan ar self X hidden_0 T")
  case True
  with forward_conformant [OF conf, of ar] show ?thesis by auto
next
  case False
  with forward_grid [OF conf T False] show ?thesis by auto
qed

lemma zero_model_fields:
  "num_layers (MyRNN_init zero_rnn) = 1" "hidden_size (MyRNN_init zero_rnn) = 1"
  by (simp_all add: zero_rnn_def MyRNN_init_def)

lemma zero_model_store: "conformant_store (MyRNN_init zero_rnn) 1"
  by (simp add: conformant_store_def weight_conformant_def bias_conformant_def
      wf_tensor_def get_weight_def get_bias_def param_key_def str_of_nat.simps
      zero_rnn_def MyRNN_init_def py_dict_def)

text \<open>
  The double loop on a conformant call: it completes, the log of assignments is the
  list of all cells in time-major order, each once, and the buffer then holds a NaN
  exactly when a cell of the grid does (the NaN written by the initial fill is gone).
\<close>

lemma double_loop_coverage:
  assumes "conformant_call self X hidden_0 T B D"
  shows "\<exists>st. run_loops ar self X hidden_0 T (initial_state ar self T B) = Inr st
            \<and> written st = all_cells T (num_layers self)
            \<and> distinct (written st)
            \<and> set (written st) = {0..<T} \<times> {0..<num_layers self}
            \<and> (has_nan ar (hidden_states st) \<longleftrightarrow> grid_has_nan ar self X hidden_0 T)"
proof -
  from run_loops_inv [OF assms, of ar] obtain st where
    st: "run_loops ar self X hidden_0 T (initial_state ar self T B) = Inr st"
        "grid_inv ar self X hidden_0 T B T 0 st" by blast
  from st(2) have w: "written st = all_cells T (num_layers self)"
    by (simp add: grid_inv_def)
  show ?thesis
    using st(1) w final_has_nan [OF st(2)]
    by (simp add: distinct_all_cells set_all_cells)
qed

subsection \<open>Concrete runs\<close>

text \<open>Unfolding every definition runs the model on a concrete input.\<close>

lemmas run_simps =
  forward_def run_loops_def loop_body_def layer_step_def compute_new_hidden_state_def
  get_weight_def get_bias_def param_key_def MyRNN_init_def py_dict_def initial_state_def
  default_hidden_def setitem01_def expand2_def has_nan_def tmap_def tadd_def bget_def bidx_def
  bdim_def view2_def matmul_def transpose2_def dot_def tcol_def trow_def select0_def select1_def
  norm_index_def shape_at_def fill_all_def torch_zeros_def torch_full_def chunk_def ebind_def
  add_arg_def arg_T_def apply_activation_def fl_ops_def fl_inf_of_sign_def fl_small_def upt_rec
  numeral_2_eq_2 numeral_3_eq_3 Let_def tabulate2_def str_of_nat.simps

lemma demo_call: "conformant_call demo demo_X demo_h0 2 1 1"
  using demo_store
  by (simp add: conformant_call_def demo_fields demo_X_def demo_h0_def wf_tensor_def)

lemma demo_params:
  "get_weight demo ''weight_hh_l'' 0 = PyTensor \<lparr>shape = [2, 2], data = [Fin 1, Fin 0, Fin 0, Fin 1]\<rparr>"
  "get_weight demo ''weight_ih_l'' 0 = PyTensor \<lparr>shape = [2, 1], data = [Fin 1, Fin 2]\<rparr>"
  "get_bias demo ''bias_hh_l'' 0 = PyTensor \<lparr>shape = [2], data = [Fin 0, Fin 1]\<rparr>"
  "get_bias demo ''bias_ih_l'' 0 = PyTensor \<lparr>shape = [2], data = [Fin 1, Fin 0]\<rparr>"
  "get_weight demo ''weight_hh_l'' (Suc 0) = PyTensor \<lparr>shape = [2, 2], data = [Fin 0, Fin 1, Fin 1, Fin 0]\<rparr>"
  "get_weight demo ''weight_ih_l'' (Suc 0) = PyTensor \<lparr>shape = [2, 2], data = [Fin 1, Fin 1, Fin 0, Fin 1]\<rparr>"
  "get_bias demo ''bias_hh_l'' (Suc 0) = PyTensor \<lparr>shape = [2], data = [Fin 1, Fin 1]\<rparr>"
  "get_bias demo ''bias_ih_l'' (Suc 0) = PyTensor \<lparr>shape = [2], data = [Fin 0, Fin 0]\<rparr>"
  by (simp_all add: get_weight_def get_bias_def param_key_def str_of_nat.simps demo_def
      demo_rnn_def MyRNN_init_def py_dict_def)

lemma demo_rows:
  "select0 demo_X 0 = Inr \<lparr>shape = [1, 1], data = [Fin 1]\<rparr>"
  "select0 demo_X 1 = Inr \<lparr>shape = [1, 1], data = [Fin 2]\<rparr>"
  "select0 demo_h0 0 = Inr \<lparr>shape = [1, 2], data = [Fin 0, Fin 1]\<rparr>"
  "select0 demo_h0 1 = Inr \<lparr>shape = [1, 2], data = [Fin 1, Fin 0]\<rparr>"
  by (simp_all add: demo_X_def demo_h0_def select0_def norm_index_def chunk_def)

lemmas step_simps =
  layer_step_def compute_new_hidden_state_def demo_params demo_fields
  tmap_def tadd_def bget_def bidx_def bdim_def view2_def matmul_def transpose2_def dot_def
  tcol_def trow_def add_arg_def arg_T_def apply_activation_def fl_ops_def fl_small_def upt_rec
  numeral_2_eq_2 Let_def tabulate2_def

lemma demo_cell_0_0:
  "HiddenStateGrid fl_ops demo demo_X demo_h0 0 0 = Inr \<lparr>shape = [1, 2], data = [Fin 2, Fin 4]\<rparr>"
  by (subst HiddenStateGrid.simps) (simp add: demo_rows step_simps)

lemma demo_cell_0_1:
  "HiddenStateGrid fl_ops demo demo_X demo_h0 0 (Suc 0)
   = Inr \<lparr>shape = [1, 2], data = [Fin 7, Fin 6]\<rparr>"
  by (subst HiddenStateGrid.simps) (simp add: demo_cell_0_0 demo_rows, simp add: step_simps)

lemma demo_cell_1_0:
  "HiddenStateGrid fl_ops demo demo_X demo_h0 (Suc 0) 0
   = Inr \<lparr>shape = [1, 2], data = [Fin 5, Fin 9]\<rparr>"
  by (subst HiddenStateGrid.simps) (simp add: demo_cell_0_0 demo_rows, simp add: step_simps)

lemma demo_cell_1_1:
  "HiddenStateGrid fl_ops demo demo_X demo_h0 (Suc 0) (Suc 0)
   = Inr \<lparr>shape = [1, 2], data = [Fin 21, Fin 17]\<rparr>"
  by (subst HiddenStateGrid.simps)
     (simp add: demo_cell_0_1 demo_cell_1_0 demo_rows, simp add: step_simps)

lemmas demo_cells = demo_cell_0_0 demo_cell_0_1 demo_cell_1_0 demo_cell_1_1

lemma demo_nan_free: "\<not> grid_has_nan fl_ops demo demo_X demo_h0 2"
proof
  assume "grid_has_nan fl_ops demo demo_X demo_h0 2"
  then obtain t l where tl: "t < 2" "l < 2"
    and nan: "case HiddenStateGrid fl_ops demo demo_X demo_h0 t l of
                Inl e \<Rightarrow> False | Inr c \<Rightarrow> has_nan fl_ops c"
    unfolding grid_has_nan_def demo_fields by blast
  from tl have "t = 0 \<or> t = Suc 0" "l = 0 \<or> l = Suc 0" by auto
  with nan have "has_nan fl_ops \<lparr>shape = [1, 2], data = [Fin 2, Fin 4]\<rparr>
      \<or> has_nan fl_ops \<lparr>shape = [1, 2], data = [Fin 7, Fin 6]\<rparr>
      \<or> has_nan fl_ops \<lparr>shape = [1, 2], data = [Fin 5, Fin 9]\<rparr>
      \<or> has_nan fl_ops \<lparr>shape = [1, 2], data = [Fin 21, Fin 17]\<rparr>"
    by (auto simp: demo_cells)
  then show False by (simp add: has_nan_def fl_ops_def)
qed

subsection \<open>Runs that differ in the initial hidden state or in the biases\<close>

lemma loop_body_hidden_cong:
  assumes "\<forall>l < num_layers self. select0 h1 (int l) = select0 h2 (int l)"
    and "layer < num_layers self"
  shows "loop_body ar self X h1 idx layer st = loop_body ar self X h2 idx layer st"
  using assms by (cases "idx = 0") (simp_all add: loop_body_def)

lemma run_loops_hidden_cong:
  assumes "\<forall>l < num_layers self. select0 h1 (int l) = select0 h2 (int l)"
  shows "run_loops ar self X h1 T st = run_loops ar self X h2 T st"
  unfolding run_loops_def
  by (intro for_each_cong) (simp add: loop_body_hidden_cong [OF assms])

lemma demo_extra_rows:
  "select0 demo_h0_extra 0 = select0 demo_h0 0" "select0 demo_h0_extra 1 = select0 demo_h0 1"
  by (simp_all add: demo_h0_extra_def demo_h0_def select0_def norm_index_def chunk_def)

lemma demo_run:
  "forward fl_ops demo demo_X (Some demo_h0)
   = Inr (\<lparr>shape = [2, 1, 2], data = [Fin 7, Fin 6, Fin 21, Fin 17]\<rparr>,
          \<lparr>shape = [2, 1, 2], data = [Fin 5, Fin 9, Fin 21, Fin 17]\<rparr>)"
  by (simp add: demo_def demo_rnn_def demo_X_def demo_h0_def run_simps)




lemma add_zero_bias:
  assumes "shape a = [n, H]" "length (data a) = n * H"
  shows "add_arg ar a (PyTensor (torch_zeros ar [H])) = add_arg ar a PyInt0"
proof -
  have z: "bias_conformant (PyTensor (torch_zeros ar [H])) H"
    by (simp add: bias_conformant_def torch_zeros_def torch_full_def wf_tensor_def)
  have "tabulate2 n H (\<lambda>i j. s_add ar (data a ! (i * H + j))
                                (bias_at ar (PyTensor (torch_zeros ar [H])) j))
        = tabulate2 n H (\<lambda>i j. s_add ar (data a ! (i * H + j)) (bias_at ar PyInt0 j))"
    by (rule tabulate2_cong) (simp add: bias_at_def torch_zeros_def torch_full_def)
  then show ?thesis
    using add_arg_ok [OF assms z, of ar] add_arg_ok [OF assms, of PyInt0 ar]
    by (simp add: bias_conformant_def)
qed

lemma matmul_result:
  assumes "matmul ar p wT = Inr a" "shape wT = [k, H]"
  shows "\<exists>n. shape a = [n, H] \<and> length (data a) = n * H"
  using assms by (auto simp: matmul_def Let_def split: if_splits)

lemma tadd_result:
  assumes "tadd ar b c = Inr d" "shape b = [n, H]" "shape c = [n', H]"
  shows "\<exists>m. shape d = [m, H] \<and> length (data d) = m * H"
  using assms by (auto simp: tadd_def view2_def bdim_same split: option.splits)

lemma add_int0_result:
  "shape a = [n, H] \<Longrightarrow> length (data a) = n * H \<Longrightarrow> add_arg ar a PyInt0 = Inr b
   \<Longrightarrow> shape b = [n, H] \<and> length (data b) = n * H"
  by (auto simp: add_arg_def tmap_eq)

lemma step_zero_bias:
  assumes "has_rows whh H" "has_rows wih H"
  shows "compute_new_hidden_state ar p i whh (PyTensor (torch_zeros ar [H])) wih
           (PyTensor (torch_zeros ar [H])) f
         = compute_new_hidden_state ar p i whh PyInt0 wih PyInt0 f"
proof -
  from assms(1) obtain w k where w: "whh = PyTensor w" "shape w = [H, k]"
    unfolding has_rows_def by (cases whh) auto
  from assms(2) obtain u k' where u: "wih = PyTensor u" "shape u = [H, k']"
    unfolding has_rows_def by (cases wih) auto
  define wT where "wT = \<lparr>shape = [k, H], data = tabulate2 k H (\<lambda>j i. data w ! (i * k + j))\<rparr>"
  define uT where "uT = \<lparr>shape = [k', H], data = tabulate2 k' H (\<lambda>j i. data u ! (i * k' + j))\<rparr>"
  have tw: "arg_T whh = Inr wT" by (simp add: arg_T_def w transpose2_ok wT_def)
  have tu: "arg_T wih = Inr uT" by (simp add: arg_T_def u transpose2_ok uT_def)
  show ?thesis
  proof (cases "matmul ar p wT")
    case (Inl e)
    then show ?thesis by (simp add: compute_new_hidden_state_def tw)
  next
    case (Inr a)
    then obtain n where a: "shape a = [n, H]" "length (data a) = n * H"
      using matmul_result [of ar p wT a k H] by (auto simp: wT_def)
    note za = add_zero_bias [OF a, of ar]
    show ?thesis
    proof (cases "add_arg ar a PyInt0")
      case (Inl e)
      with Inr za show ?thesis by (simp add: compute_new_hidden_state_def tw)
    next
      case b: (Inr b)
      with a have sb: "shape b = [n, H]" "length (data b) = n * H"
        using add_int0_result [of a n H ar b] by simp_all
      show ?thesis
      proof (cases "matmul ar i uT")
        case (Inl e)
        with Inr b za show ?thesis by (simp add: compute_new_hidden_state_def tw tu)
      next
        case c: (Inr c)
        then obtain n' where sc: "shape c = [n', H]"
          using matmul_result [of ar i uT c k' H] by (auto simp: uT_def)
        show ?thesis
        proof (cases "tadd ar b c")
          case (Inl e)
          with Inr b c za show ?thesis by (simp add: compute_new_hidden_state_def tw tu)
        next
          case d: (Inr d)
          then obtain m where "shape d = [m, H]" "length (data d) = m * H"
            using tadd_result [OF _ sb(1) sc] by blast
          then have "add_arg ar d (PyTensor (torch_zeros ar [H])) = add_arg ar d PyInt0"
            by (rule add_zero_bias)
          with Inr b c d za show ?thesis by (simp add: compute_new_hidden_state_def tw tu)
        qed
      qed
    qed
  qed
qed

lemma layer_step_zero_bias:
  assumes "zero_bias_twin ar nb zb" "l < num_layers nb"
  shows "layer_step ar zb l p i = layer_step ar nb l p i"
proof -
  from assms have
    "get_weight zb ''weight_hh_l'' l = get_weight nb ''weight_hh_l'' l"
    "get_weight zb ''weight_ih_l'' l = get_weight nb ''weight_ih_l'' l"
    "has_rows (get_weight nb ''weight_hh_l'' l) (hidden_size nb)"
    "has_rows (get_weight nb ''weight_ih_l'' l) (hidden_size nb)"
    "get_bias nb ''bias_hh_l'' l = PyInt0"
    "get_bias nb ''bias_ih_l'' l = PyInt0"
    "get_bias zb ''bias_hh_l'' l = PyTensor (torch_zeros ar [hidden_size nb])"
    "get_bias zb ''bias_ih_l'' l = PyTensor (torch_zeros ar [hidden_size nb])"
    "activation_func zb = activation_func nb"
    unfolding zero_bias_twin_def by blast+
  then show ?thesis
    unfolding layer_step_def by (simp only: step_zero_bias)
qed

lemma loop_body_zero_bias:
  assumes "zero_bias_twin ar nb zb" "l < num_layers nb"
  shows "loop_body ar zb X h idx l st = loop_body ar nb X h idx l st"
  unfolding loop_body_def by (simp only: layer_step_zero_bias [OF assms])

lemma forward_zero_bias:
  assumes "zero_bias_twin ar nb zb"
  shows "forward ar zb X ho = forward ar nb X ho"
proof -
  from assms have f: "num_layers zb = num_layers nb" "hidden_size zb = hidden_size nb"
    unfolding zero_bias_twin_def by blast+
  have "run_loops ar zb X h T st = run_loops ar nb X h T st" for h T st
    unfolding run_loops_def f
    by (intro for_each_cong) (simp add: loop_body_zero_bias [OF assms])
  then show ?thesis
    by (cases ho) (simp_all add: forward_def default_hidden_def initial_state_def f)
qed

lemma demo_twin: "zero_bias_twin fl_ops (MyRNN_init demo_nobias_rnn) (MyRNN_init demo_zerobias_rnn)"
  by (simp add: zero_bias_twin_def has_rows_def get_weight_def get_bias_def param_key_def
      str_of_nat.simps demo_nobias_rnn_def demo_zerobias_rnn_def MyRNN_init_def py_dict_def
      torch_zeros_def torch_full_def fl_ops_def numeral_2_eq_2 less_Suc_eq)

subsection \<open>The shape of the buffer on any input\<close>

lemma norm_index_lt: "norm_index n i = Inr k \<Longrightarrow> k < n"
  by (auto simp: norm_index_def split: if_splits)

lemma expand2_length: "expand2 v b h = Inr vd \<Longrightarrow> length vd = b * h"
  by (auto simp: expand2_def split: option.splits if_splits)

lemma setitem01_shape:
  assumes "setitem01 t i j v = Inr t'" "shape t = [n0, n1, b, h]"
    and "length (data t) = (n0 * n1) * (b * h)"
  shows "shape t' = [n0, n1, b, h] \<and> length (data t') = (n0 * n1) * (b * h)"
proof -
  from assms(1,2) obtain ki kj vd where
    ki: "norm_index n0 i = Inr ki" and kj: "norm_index n1 j = Inr kj"
    and vd: "expand2 v b h = Inr vd"
    and t': "t' = t\<lparr>data := take ((ki * n1 + kj) * (b * h)) (data t) @ vd
                          @ drop ((ki * n1 + kj) * (b * h) + b * h) (data t)\<rparr>"
    by (auto simp: setitem01_def ebind_eq_Inr)
  from ki kj have "ki * n1 + kj < n0 * n1"
    by (intro cell_index_lt norm_index_lt)
  with assms(3) expand2_length [OF vd] have
    "length (take ((ki * n1 + kj) * (b * h)) (data t) @ vd
             @ drop ((ki * n1 + kj) * (b * h) + b * h) (data t)) = (n0 * n1) * (b * h)"
    by (intro write_chunk_length)
  with t' assms(2) show ?thesis by simp
qed

lemma loop_body_shape:
  assumes "loop_body ar self X hidden_0 idx layer st = Inr st'" "buffer_shape self T B st"
  shows "buffer_shape self T B st'"
proof -
  from assms(1) obtain v hs where
    "setitem01 (hidden_states st) (int idx) (int layer) v = Inr hs" "hidden_states st' = hs"
    by (auto simp: loop_body_def ebind_eq_Inr)
  with assms(2) show ?thesis
    unfolding buffer_shape_def using setitem01_shape by blast
qed

lemma for_each_preserves:
  assumes "\<And>x s s'. f x s = Inr s' \<Longrightarrow> P s \<Longrightarrow> P s'"
  shows "for_each xs f s = Inr s' \<Longrightarrow> P s \<Longrightarrow> P s'"
  by (induction xs arbitrary: s) (auto simp: ebind_eq_Inr intro: assms)

lemma run_loops_shape:
  assumes "run_loops ar self X hidden_0 T' st = Inr st'" "buffer_shape self T B st"
  shows "buffer_shape self T B st'"
proof -
  have inner: "buffer_shape self T B s'"
    if "for_each [0..<num_layers self] (\<lambda>layer. loop_body ar self X hidden_0 idx layer) s = Inr s'"
      and "buffer_shape self T B s" for idx s s'
    using that
    by (rule for_each_preserves [where P = "buffer_shape self T B", rotated])
       (rule loop_body_shape)
  from assms show ?thesis
    unfolding run_loops_def
    by (rule for_each_preserves [where P = "buffer_shape self T B", rotated]) (rule inner)
qed

lemma initial_buffer_shape: "buffer_shape self T B (initial_state ar self T B)"
  by (simp add: buffer_shape_def initial_state_def fill_all_def torch_zeros_def torch_full_def)

lemma single_layer_outputs:
  assumes L: "num_layers self = 1" and bs: "buffer_shape self T B st"
    and o: "select1 (hidden_states st) (- 1) = Inr out"
    and h: "select0 (hidden_states st) (- 1) = Inr hn"
  shows "\<exists>c. select0 hn 0 = Inr c \<and> select0 out (- 1) = Inr c \<and> select0 out (int T - 1) = Inr c"
proof -
  let ?H = "hidden_size self"
  let ?m = "B * ?H"
  let ?d = "data (hidden_states st)"
  from bs L have sh: "shape (hidden_states st) = [T, 1, B, ?H]" and len: "length ?d = T * ?m"
    by (simp_all add: buffer_shape_def)
  have T: "0 < T"
  proof (rule ccontr)
    assume "\<not> 0 < T"
    with h sh show False by (simp add: select0_def norm_index_def)
  qed
  from h sh T have hn: "hn = \<lparr>shape = [1, B, ?H], data = chunk ?m (T - 1) ?d\<rparr>"
    by (simp add: select0_def norm_index_last)
  from o sh have out: "out = \<lparr>shape = [T, B, ?H], data = concat (map (\<lambda>a. chunk ?m a ?d) [0..<T])\<rparr>"
    by (simp add: select1_def norm_index_last)
  have "\<forall>a < T. length (chunk ?m a ?d) = ?m"
    using chunk_length [OF len] by blast
  then have last: "chunk ?m k (concat (map (\<lambda>a. chunk ?m a ?d) [0..<T])) = chunk ?m k ?d"
    if "k < T" for k
    using that by (intro chunk_concat_map) simp_all
  have c0: "chunk ?m 0 (chunk ?m k ?d) = chunk ?m k ?d" for k
    by (simp add: chunk_def)
  define c where "c = \<lparr>shape = [B, ?H], data = chunk ?m (T - 1) ?d\<rparr>"
  have 1: "select0 hn 0 = Inr c"
    by (simp add: hn select0_def norm_index_def c0 c_def)
  have 2: "select0 out (- 1) = Inr c"
    using T by (simp add: out select0_def norm_index_last last c_def)
  have 3: "select0 out (int T - 1) = Inr c"
    using T by (simp add: out select0_def norm_index_pred last c_def)
  from 1 2 3 show ?thesis by blast
qed

subsection \<open>Where errors of the loops come from\<close>















section \<open>Properties of the specification\<close>

subsection \<open>C1: the recurrence and the two outputs\<close>

text \<open>
  C1 (as amended). For an input \<open>X\<close> of shape \<open>[T, B, D]\<close> with \<open>T \<ge> 1\<close>, an initial
  hidden state of shape \<open>[num_layers, B, H]\<close> and a conformant parameter store, if no
  cell of the grid holds a NaN then \<^verbatim>\<open>forward\<close> returns a pair
  \<open>(last_layer_outputs, final_hidden)\<close> of shapes \<open>[T, B, H]\<close> and \<open>[num_layers, B, H]\<close>
  with \<open>last_layer_outputs[t] = grid[t, num_layers - 1]\<close> for every \<open>t\<close> and
  \<open>final_hidden[l] = grid[T - 1, l]\<close> for every \<open>l\<close>, where cell \<open>(t, l)\<close> of the grid is
  the step function of layer \<open>l\<close> applied to \<open>hidden_0[l]\<close> if \<open>t = 0\<close>, else to
  \<open>grid[t - 1, l]\<close>, and to \<open>X[t]\<close> if \<open>l = 0\<close>, else to \<open>grid[t, l - 1]\<close>; every
  cell is a tensor of shape \<open>[B, H]\<close>.
\<close>

theorem C1_forward_grid:
  assumes "conformant_call self X hidden_0 T B D" and "0 < T"
    and "\<not> grid_has_nan ar self X hidden_0 T"
  shows "\<exists>out hn. forward ar self X (Some hidden_0) = Inr (out, hn)
           \<and> shape out = [T, B, hidden_size self]
           \<and> shape hn = [num_layers self, B, hidden_size self]
           \<and> (\<forall>t < T. select0 out (int t)
                         = HiddenStateGrid ar self X hidden_0 t (num_layers self - 1))
           \<and> (\<forall>l < num_layers self. select0 hn (int l)
                         = HiddenStateGrid ar self X hidden_0 (T - 1) l)
           \<and> (\<forall>t < T. \<forall>l < num_layers self.
                  \<exists>c. HiddenStateGrid ar self X hidden_0 t l = Inr c
                      \<and> shape c = [B, hidden_size self])"
  using forward_grid [OF assms] grid_cell_ok [OF assms(1), of _ _ ar] by blast

text \<open>The two-layer model on two timesteps: all four cells, read back from the outputs.\<close>

theorem C1_forward_grid_witness:
  "conformant_call demo demo_X demo_h0 2 1 1 \<and> \<not> grid_has_nan fl_ops demo demo_X demo_h0 2
   \<and> (\<exists>out hn. forward fl_ops demo demo_X (Some demo_h0) = Inr (out, hn)
          \<and> select0 out 0 = Inr \<lparr>shape = [1, 2], data = [Fin 7, Fin 6]\<rparr>
          \<and> select0 out 1 = Inr \<lparr>shape = [1, 2], data = [Fin 21, Fin 17]\<rparr>
          \<and> select0 hn 0 = Inr \<lparr>shape = [1, 2], data = [Fin 5, Fin 9]\<rparr>
          \<and> select0 hn 1 = Inr \<lparr>shape = [1, 2], data = [Fin 21, Fin 17]\<rparr>)"
proof -
  from C1_forward_grid [OF demo_call _ demo_nan_free] obtain out hn where
    fw: "forward fl_ops demo demo_X (Some demo_h0) = Inr (out, hn)" and
    o: "\<forall>t < 2. select0 out (int t) = HiddenStateGrid fl_ops demo demo_X demo_h0 t (num_layers demo - 1)" and
    h: "\<forall>l < num_layers demo. select0 hn (int l) = HiddenStateGrid fl_ops demo demo_X demo_h0 (2 - 1) l"
    by auto
  from o [rule_format, of 0] o [rule_format, of 1]
  have "select0 out 0 = HiddenStateGrid fl_ops demo demo_X demo_h0 0 (Suc 0)"
    "select0 out 1 = HiddenStateGrid fl_ops demo demo_X demo_h0 (Suc 0) (Suc 0)"
    by (simp_all add: demo_fields)
  moreover from h [rule_format, of 0] h [rule_format, of 1]
  have "select0 hn 0 = HiddenStateGrid fl_ops demo demo_X demo_h0 (Suc 0) 0"
    "select0 hn 1 = HiddenStateGrid fl_ops demo demo_X demo_h0 (Suc 0) (Suc 0)"
    by (simp_all add: demo_fields)
  ultimately show ?thesis using fw demo_call demo_nan_free by (simp add: demo_cells)
qed

text \<open>
  As stated, for every \<open>X\<close> of shape \<open>[seq_length, B, input_size]\<close>, the claim fails on
  the empty sequence: the shapes conform and \<^verbatim>\<open>forward\<close> raises IndexError.
\<close>

theorem C1_empty_sequence_counterexample:
  "conformant_call demo empty_X demo_h0 0 1 1
   \<and> forward fl_ops demo empty_X (Some demo_h0) = Inl IndexError"
  using demo_store
  by (simp add: conformant_call_def demo_store demo_fields empty_X_def demo_h0_def wf_tensor_def
      forward_def shape_at_def run_loops_def initial_state_def fill_all_def torch_zeros_def
      torch_full_def has_nan_def select1_def select0_def norm_index_def)
subsection \<open>C2: the step function\<close>

text \<open>
  C2. For a previous hidden state of shape \<open>[B, H]\<close>, inputs of shape \<open>[B, D]\<close>,
  weights of shapes \<open>[H, H]\<close> and \<open>[H, D]\<close>, and each bias either of shape \<open>[H]\<close> or the
  additive zero, \<^verbatim>\<open>compute_new_hidden_state\<close> does not fail and returns the tensor of
  shape \<open>[B, H]\<close> whose element \<open>(b, h)\<close> is the activation of
  \<open>(prev \<cdot> weight_hh\<^sup>T)[b, h] + bias_hh[h] + (inputs \<cdot> weight_ih\<^sup>T)[b, h] + bias_ih[h]\<close>:
  the biases are broadcast over the batch and the activation (tanh or relu) is applied
  to each element.
\<close>

theorem C2_step_function:
  assumes "shape prev = [B, H]" and "shape inputs = [B, D]"
    and "shape w_hh = [H, H]" and "shape w_ih = [H, D]"
    and "bias_conformant bias_hh H" and "bias_conformant bias_ih H"
  shows "compute_new_hidden_state ar prev inputs (PyTensor w_hh) bias_hh (PyTensor w_ih) bias_ih f
         = Inr (step_formula ar prev inputs w_hh bias_hh w_ih bias_ih f B H D)"
  using assms by (rule compute_new_hidden_state_formula)

theorem C2_step_function_witness:
  "compute_new_hidden_state fl_ops
     \<lparr>shape = [1, 2], data = [Fin (- 5), Fin 2]\<rparr>
     \<lparr>shape = [1, 1], data = [Fin 3]\<rparr>
     (PyTensor \<lparr>shape = [2, 2], data = [Fin 1, Fin 0, Fin 0, Fin 1]\<rparr>)
     (PyTensor \<lparr>shape = [2], data = [Fin 0, Fin 1]\<rparr>)
     (PyTensor \<lparr>shape = [2, 1], data = [Fin 1, Fin 2]\<rparr>)
     PyInt0 TorchRelu
   = Inr \<lparr>shape = [1, 2], data = [Fin 0, Fin 9]\<rparr>"
  using C2_step_function [of "\<lparr>shape = [1, 2], data = [Fin (- 5), Fin 2]\<rparr>" 1 2
      "\<lparr>shape = [1, 1], data = [Fin 3]\<rparr>" 1
      "\<lparr>shape = [2, 2], data = [Fin 1, Fin 0, Fin 0, Fin 1]\<rparr>"
      "\<lparr>shape = [2, 1], data = [Fin 1, Fin 2]\<rparr>"
      "PyTensor \<lparr>shape = [2], data = [Fin 0, Fin 1]\<rparr>" PyInt0 fl_ops TorchRelu]
  by (simp add: bias_conformant_def wf_tensor_def step_formula_def act_fn_def bias_at_def
      tabulate2_def dot_def trow_def fl_ops_def fl_small_def upt_rec numeral_2_eq_2)
subsection \<open>C3: shape mismatches\<close>





subsection \<open>C4: coverage of the grid and the assertion\<close>

text \<open>
  C4. The property: for a call of \<^verbatim>\<open>forward\<close> with conformant shapes whose inputs and
  parameters hold no NaN, after the double loop every cell of the grid has been
  assigned exactly once, the assertion does not fire and \<^verbatim>\<open>forward\<close> returns.

  The source departs from it. The one-layer tanh model with hidden size 1 whose
  weights and biases are all zero, on the input of shape \<open>[1, 1, 1]\<close> that holds \<open>+\<infinity>\<close>
  and the zero initial hidden state: no input and no parameter holds a NaN and the
  shapes conform; the double loop completes and assigns the one cell \<open>(0, 0)\<close>, once;
  the value it assigns, computed by the step function from \<open>hidden_0[0]\<close> and \<open>X[0]\<close>,
  is NaN (\<open>\<infinity> \<cdot> 0\<close> in the input-to-hidden product), so the
  assertion, written to find cells that were not filled, fires on a grid that is
  filled, and \<^verbatim>\<open>forward\<close> raises AssertionError.
\<close>

theorem C4_assert_fires_on_filled_grid:
  "shape inf_X = [1, 1, 1] \<and> shape zero_h0 = [1, 1, 1]
   \<and> num_layers (MyRNN_init zero_rnn) = 1 \<and> hidden_size (MyRNN_init zero_rnn) = 1
   \<and> map (\<lambda>p. (fst p, shape (snd p))) (rnn_named_parameters zero_rnn)
       = [(''weight_ih_l0'', [1, 1]), (''weight_hh_l0'', [1, 1]),
          (''bias_ih_l0'', [1]), (''bias_hh_l0'', [1])]
   \<and> \<not> has_nan fl_ops inf_X \<and> \<not> has_nan fl_ops zero_h0
   \<and> list_all (\<lambda>p. \<not> has_nan fl_ops (snd p)) (rnn_named_parameters zero_rnn)
   \<and> select0 zero_h0 0 = Inr \<lparr>shape = [1, 1], data = [Fin 0]\<rparr>
   \<and> select0 inf_X 0 = Inr \<lparr>shape = [1, 1], data = [PInf]\<rparr>
   \<and> layer_step fl_ops (MyRNN_init zero_rnn) 0
         \<lparr>shape = [1, 1], data = [Fin 0]\<rparr> \<lparr>shape = [1, 1], data = [PInf]\<rparr>
       = Inr \<lparr>shape = [1, 1], data = [NaN]\<rparr>
   \<and> run_loops fl_ops (MyRNN_init zero_rnn) inf_X zero_h0 1
         (initial_state fl_ops (MyRNN_init zero_rnn) 1 1)
       = Inr \<lparr>hidden_states = \<lparr>shape = [1, 1, 1, 1], data = [NaN]\<rparr>, written = [(0, 0)]\<rparr>
   \<and> forward fl_ops (MyRNN_init zero_rnn) inf_X (Some zero_h0) = Inl AssertionError"
proof -
  have "shape inf_X = [1, 1, 1]" "shape zero_h0 = [1, 1, 1]"
    "num_layers (MyRNN_init zero_rnn) = 1" "hidden_size (MyRNN_init zero_rnn) = 1"
    "map (\<lambda>p. (fst p, shape (snd p))) (rnn_named_parameters zero_rnn)
       = [(''weight_ih_l0'', [1, 1]), (''weight_hh_l0'', [1, 1]),
          (''bias_ih_l0'', [1]), (''bias_hh_l0'', [1])]"
    by (simp_all add: inf_X_def zero_h0_def zero_rnn_def MyRNN_init_def)
  moreover have "\<not> has_nan fl_ops inf_X" "\<not> has_nan fl_ops zero_h0"
    "list_all (\<lambda>p. \<not> has_nan fl_ops (snd p)) (rnn_named_parameters zero_rnn)"
    by (simp_all add: has_nan_def fl_ops_def inf_X_def zero_h0_def zero_rnn_def)
  moreover have "select0 zero_h0 0 = Inr \<lparr>shape = [1, 1], data = [Fin 0]\<rparr>"
    "select0 inf_X 0 = Inr \<lparr>shape = [1, 1], data = [PInf]\<rparr>"
    "layer_step fl_ops (MyRNN_init zero_rnn) 0
         \<lparr>shape = [1, 1], data = [Fin 0]\<rparr> \<lparr>shape = [1, 1], data = [PInf]\<rparr>
       = Inr \<lparr>shape = [1, 1], data = [NaN]\<rparr>"
    by (simp_all add: zero_rnn_def inf_X_def zero_h0_def run_simps)
  moreover have "run_loops fl_ops (MyRNN_init zero_rnn) inf_X zero_h0 1
         (initial_state fl_ops (MyRNN_init zero_rnn) 1 1)
       = Inr \<lparr>hidden_states = \<lparr>shape = [1, 1, 1, 1], data = [NaN]\<rparr>, written = [(0, 0)]\<rparr>"
    by (simp add: zero_rnn_def inf_X_def zero_h0_def run_simps)
  moreover have "forward fl_ops (MyRNN_init zero_rnn) inf_X (Some zero_h0) = Inl AssertionError"
    by (simp add: zero_rnn_def inf_X_def zero_h0_def run_simps)
  ultimately show ?thesis by blast
qed

subsection \<open>C5: the default initial hidden state\<close>

text \<open>
  C5. For every \<open>X\<close> with a batch dimension \<open>B\<close>, \<^verbatim>\<open>forward(X)\<close> without
  \<^verbatim>\<open>hidden_0\<close> returns exactly what \<^verbatim>\<open>forward(X, Z)\<close> returns for the all-zero \<open>Z\<close>
  of shape \<open>[num_layers, B, H]\<close>.
\<close>

theorem C5_zero_default:
  assumes "shape X = T # B # rest"
  shows "forward ar self X None
         = forward ar self X (Some (torch_zeros ar [num_layers self, B, hidden_size self]))"
  using assms by (simp add: forward_def shape_at_def default_hidden_def)

theorem C5_zero_default_witness:
  "forward fl_ops demo demo_X None = forward fl_ops demo demo_X (Some (torch_zeros fl_ops [2, 1, 2]))
   \<and> forward fl_ops demo demo_X None
       = Inr (\<lparr>shape = [2, 1, 2], data = [Fin 6, Fin 4, Fin 18, Fin 15]\<rparr>,
              \<lparr>shape = [2, 1, 2], data = [Fin 5, Fin 8, Fin 18, Fin 15]\<rparr>)"
proof -
  have "forward fl_ops demo demo_X (Some (torch_zeros fl_ops [2, 1, 2]))
       = Inr (\<lparr>shape = [2, 1, 2], data = [Fin 6, Fin 4, Fin 18, Fin 15]\<rparr>,
              \<lparr>shape = [2, 1, 2], data = [Fin 5, Fin 8, Fin 18, Fin 15]\<rparr>)"
    by (simp add: demo_def demo_rnn_def demo_X_def run_simps)
  with C5_zero_default [of demo_X 2 1 "[1]" fl_ops demo] show ?thesis
    by (simp add: demo_fields demo_X_def)
qed

subsection \<open>C6: the selected activation\<close>

text \<open>
  C6. The activation \<^verbatim>\<open>__init__\<close> selects is rectified-linear if and only if the
  configured nonlinearity is exactly the string \<^verbatim>\<open>relu\<close>, and hyperbolic tangent for
  every other string; the selection is a total function of the string.
\<close>

theorem C6_activation_selection:
  "(activation_func (MyRNN_init rnn) = TorchRelu \<longleftrightarrow> rnn_nonlinearity rnn = ''relu'')
   \<and> (activation_func (MyRNN_init rnn) = TorchTanh \<longleftrightarrow> rnn_nonlinearity rnn \<noteq> ''relu'')"
  by (simp add: MyRNN_init_def)

text \<open>The configured strings \<^verbatim>\<open>relu\<close>, \<^verbatim>\<open>tanh\<close> and two misspellings.\<close>

theorem C6_activation_selection_witness:
  "activation_func (MyRNN_init demo_rnn) = TorchRelu
   \<and> activation_func (MyRNN_init zero_rnn) = TorchTanh
   \<and> activation_func (MyRNN_init (demo_rnn\<lparr>rnn_nonlinearity := ''ReLU''\<rparr>)) = TorchTanh
   \<and> activation_func (MyRNN_init (demo_rnn\<lparr>rnn_nonlinearity := ''relu ''\<rparr>)) = TorchTanh"
  using C6_activation_selection [of demo_rnn] C6_activation_selection [of zero_rnn]
    C6_activation_selection [of "demo_rnn\<lparr>rnn_nonlinearity := ''ReLU''\<rparr>"]
    C6_activation_selection [of "demo_rnn\<lparr>rnn_nonlinearity := ''relu ''\<rparr>"]
  by (simp add: demo_rnn_def zero_rnn_def)

subsection \<open>C7: absent biases\<close>

text \<open>
  C7. For every \<open>X\<close> and \<open>hidden_0\<close>, \<^verbatim>\<open>forward\<close> on a store without bias tensors
  returns exactly what it returns on the store with the same weights and every bias
  the all-zero tensor of shape \<open>[H]\<close>.
\<close>

theorem C7_absent_bias_is_zero_bias:
  assumes "zero_bias_twin ar nb zb"
  shows "forward ar nb X hidden_0 = forward ar zb X hidden_0"
  using forward_zero_bias [OF assms] by simp

theorem C7_absent_bias_is_zero_bias_witness:
  "zero_bias_twin fl_ops (MyRNN_init demo_nobias_rnn) (MyRNN_init demo_zerobias_rnn)
   \<and> forward fl_ops (MyRNN_init demo_nobias_rnn) demo_X (Some demo_h0)
       = forward fl_ops (MyRNN_init demo_zerobias_rnn) demo_X (Some demo_h0)
   \<and> forward fl_ops (MyRNN_init demo_nobias_rnn) demo_X (Some demo_h0)
       = Inr (\<lparr>shape = [2, 1, 2], data = [Fin 4, Fin 4, Fin 14, Fin 11]\<rparr>,
              \<lparr>shape = [2, 1, 2], data = [Fin 3, Fin 7, Fin 14, Fin 11]\<rparr>)"
proof -
  have "forward fl_ops (MyRNN_init demo_nobias_rnn) demo_X (Some demo_h0)
       = Inr (\<lparr>shape = [2, 1, 2], data = [Fin 4, Fin 4, Fin 14, Fin 11]\<rparr>,
              \<lparr>shape = [2, 1, 2], data = [Fin 3, Fin 7, Fin 14, Fin 11]\<rparr>)"
    by (simp add: demo_nobias_rnn_def demo_X_def demo_h0_def run_simps)
  with C7_absent_bias_is_zero_bias [OF demo_twin, of demo_X "Some demo_h0"] demo_twin
  show ?thesis by simp
qed

subsection \<open>C8: a single layer\<close>

text \<open>
  C8. For a model with one layer, whenever \<^verbatim>\<open>forward\<close> returns
  \<open>(last_layer_outputs, final_hidden)\<close>, \<open>final_hidden[0]\<close> is
  \<open>last_layer_outputs[seq_length - 1]\<close>, the last element of the output sequence.
\<close>

theorem C8_single_layer:
  assumes "num_layers self = 1" and "forward ar self X hidden_0 = Inr (last_layer_outputs, final_hidden)"
  shows "\<exists>T c. shape_at X 0 = Inr T \<and> select0 final_hidden 0 = Inr c
           \<and> select0 last_layer_outputs (int T - 1) = Inr c
           \<and> select0 last_layer_outputs (- 1) = Inr c"
proof -
  from assms(2) obtain T B st where
    T: "shape_at X 0 = Inr T" and
    run: "run_loops ar self X (default_hidden ar self B hidden_0) T (initial_state ar self T B) = Inr st"
    and rest: "(if has_nan ar (hidden_states st) then Inl AssertionError
           else ebind (select1 (hidden_states st) (- 1)) (\<lambda>out.
                ebind (select0 (hidden_states st) (- 1)) (\<lambda>hn. Inr (out, hn))))
          = Inr (last_layer_outputs, final_hidden)"
    unfolding forward_def by (auto simp: ebind_eq_Inr)
  from rest have o: "select1 (hidden_states st) (- 1) = Inr last_layer_outputs"
    and h: "select0 (hidden_states st) (- 1) = Inr final_hidden"
    by (auto simp: ebind_eq_Inr split: if_splits)
  from run_loops_shape [OF run initial_buffer_shape] have "buffer_shape self T B st" .
  from single_layer_outputs [OF assms(1) this o h] T show ?thesis by blast
qed

theorem C8_single_layer_witness:
  "num_layers (MyRNN_init one_layer_rnn) = 1
   \<and> forward fl_ops (MyRNN_init one_layer_rnn) demo_X None
       = Inr (\<lparr>shape = [2, 1, 2], data = [Fin 2, Fin 3, Fin 5, Fin 8]\<rparr>,
              \<lparr>shape = [1, 1, 2], data = [Fin 5, Fin 8]\<rparr>)
   \<and> select0 \<lparr>shape = [1, 1, 2], data = [Fin 5, Fin 8 :: fl]\<rparr> 0
       = select0 \<lparr>shape = [2, 1, 2], data = [Fin 2, Fin 3, Fin 5, Fin 8]\<rparr> (- 1)"
proof -
  have n: "num_layers (MyRNN_init one_layer_rnn) = 1"
    by (simp add: one_layer_rnn_def MyRNN_init_def)
  have f: "forward fl_ops (MyRNN_init one_layer_rnn) demo_X None
       = Inr (\<lparr>shape = [2, 1, 2], data = [Fin 2, Fin 3, Fin 5, Fin 8]\<rparr>,
              \<lparr>shape = [1, 1, 2], data = [Fin 5, Fin 8]\<rparr>)"
    by (simp add: one_layer_rnn_def demo_X_def run_simps)
  from C8_single_layer [OF n f] n f show ?thesis by auto
qed

subsection \<open>C9: the layers of the initial hidden state that are read\<close>

text \<open>
  C9. Two initial hidden states that agree on the slices \<open>0, \<dots>, num_layers - 1\<close>
  give the same result of \<^verbatim>\<open>forward\<close>: the layers of \<open>hidden_0\<close> beyond \<open>num_layers\<close>
  have no influence, and a \<open>hidden_0\<close> with more layers than the model is accepted
  whenever its first \<open>num_layers\<close> layers are.
\<close>

theorem C9_only_first_layers_read:
  assumes "\<forall>l < num_layers self. select0 h1 (int l) = select0 h2 (int l)"
  shows "forward ar self X (Some h1) = forward ar self X (Some h2)
         \<and> (conformant_call self X h2 T B D \<and> 0 < T \<and> \<not> grid_has_nan ar self X h2 T
              \<longrightarrow> (\<exists>out hn. forward ar self X (Some h1) = Inr (out, hn)))"
proof -
  have "forward ar self X (Some h1) = forward ar self X (Some h2)"
    using run_loops_hidden_cong [OF assms]
    by (simp add: forward_def default_hidden_def)
  then show ?thesis using forward_returns_iff [of self X h2 T B D ar] by auto
qed

text \<open>The two-layer model with a third layer in \<open>hidden_0\<close> that holds a NaN.\<close>

theorem C9_only_first_layers_read_witness:
  "shape demo_h0_extra = [3, 1, 2] \<and> num_layers demo = 2
   \<and> conformant_call demo demo_X demo_h0 2 1 1 \<and> \<not> grid_has_nan fl_ops demo demo_X demo_h0 2
   \<and> (\<exists>out hn. forward fl_ops demo demo_X (Some demo_h0_extra) = Inr (out, hn))
   \<and> forward fl_ops demo demo_X (Some demo_h0_extra) = forward fl_ops demo demo_X (Some demo_h0)
   \<and> forward fl_ops demo demo_X (Some demo_h0_extra)
       = Inr (\<lparr>shape = [2, 1, 2], data = [Fin 7, Fin 6, Fin 21, Fin 17]\<rparr>,
              \<lparr>shape = [2, 1, 2], data = [Fin 5, Fin 9, Fin 21, Fin 17]\<rparr>)"
proof -
  have "\<forall>l < num_layers demo. select0 demo_h0_extra (int l) = select0 demo_h0 (int l)"
    using demo_extra_rows by (auto simp: demo_fields numeral_2_eq_2 less_Suc_eq)
  note c9 = C9_only_first_layers_read [OF this, of fl_ops demo_X 2 1 1]
  from c9 have "forward fl_ops demo demo_X (Some demo_h0_extra)
                = forward fl_ops demo demo_X (Some demo_h0)"
    by (rule conjunct1)
  moreover have "\<exists>out hn. forward fl_ops demo demo_X (Some demo_h0_extra) = Inr (out, hn)"
    using demo_call demo_nan_free by (intro c9 [THEN conjunct2, THEN mp]) simp
  ultimately have "forward fl_ops demo demo_X (Some demo_h0_extra)
                = forward fl_ops demo demo_X (Some demo_h0)"
    and "\<exists>out hn. forward fl_ops demo demo_X (Some demo_h0_extra) = Inr (out, hn)"
    by blast+
  with demo_run demo_call demo_nan_free show ?thesis
    by (simp add: demo_fields demo_h0_extra_def)
qed

subsection \<open>C10: the empty sequence\<close>

text \<open>
  C10. For every \<open>X\<close> whose first dimension is empty, \<^verbatim>\<open>forward\<close> raises IndexError:
  the double loop leaves the buffer as it was, the buffer has no element and so no
  NaN, and indexing the empty time dimension of the buffer with \<open>-1\<close> is out of range.
\<close>

theorem C10_empty_sequence:
  assumes "shape X = 0 # B # rest"
  shows "forward ar self X ho = Inl IndexError
         \<and> run_loops ar self X (default_hidden ar self B ho) 0 (initial_state ar self 0 B)
             = Inr (initial_state ar self 0 B)
         \<and> \<not> has_nan ar (hidden_states (initial_state ar self 0 B))
         \<and> select0 (hidden_states (initial_state ar self 0 B)) (- 1) = Inl IndexError"
proof -
  let ?hs = "hidden_states (initial_state ar self 0 B)"
  have sh: "shape ?hs = [0, num_layers self, B, hidden_size self]" and d: "data ?hs = []"
    by (simp_all add: initial_state_def fill_all_def torch_zeros_def torch_full_def)
  have r: "run_loops ar self X (default_hidden ar self B ho) 0 (initial_state ar self 0 B)
           = Inr (initial_state ar self 0 B)"
    by (simp add: run_loops_def)
  have n: "\<not> has_nan ar ?hs" by (simp add: has_nan_def d)
  have s0: "select0 ?hs (- 1) = Inl IndexError"
    by (simp add: select0_def sh norm_index_def)
  have "forward ar self X ho
        = ebind (select1 ?hs (- 1)) (\<lambda>last_layer_outputs.
          ebind (select0 ?hs (- 1)) (\<lambda>final_hidden. Inr (last_layer_outputs, final_hidden)))"
    using assms r n by (simp add: forward_def shape_at_def)
  also have "\<dots> = Inl IndexError"
    by (cases "num_layers self = 0") (simp_all add: select1_def sh s0 norm_index_def)
  finally show ?thesis using r n s0 by simp
qed

theorem C10_empty_sequence_witness:
  "shape empty_X = [0, 1, 1]
   \<and> forward fl_ops demo empty_X None = Inl IndexError
   \<and> select0 (hidden_states (initial_state fl_ops demo 0 1)) (- 1) = Inl IndexError"
  using C10_empty_sequence [of empty_X 1 "[1]" fl_ops demo None]
  by (simp add: empty_X_def)

end
